theory Spec2Isabelle
  imports Complex_Main "HOL-Library.List_Lexorder" "HOL-Library.Char_ord"
begin

section \<open>The browser client of s2.term (ts-frontend/src/main.ts)\<close>

text \<open>
  The class \<open>StreamingTerminal\<close> drives an xterm.js terminal from two S2 streams. It is
  modelled by explicit state passing: a record of the fields of the class, extended by

  \<^item> \<open>trace\<close>, the calls the object has made so far to the terminal, the console, the S2
    client and \<open>setTimeout\<close>, oldest first;
  \<^item> \<open>loop\<close>, the one control point at which an \<open>async\<close> method stays suspended for an
    unbounded time: the \<open>for await\<close> loop of \<open>startS2Streaming\<close>.

  Every other \<open>await\<close> is taken to complete before the next event is handled, so each
  event handler is one function from state to state. What the handlers read from
  outside (the clock, the size of the terminal, whether a call to S2 resolves or
  rejects) is passed to them in an \<open>env\<close>.

  JavaScript numbers are kept exact: timestamps and \<open>Date.now()\<close> are integers (they stay
  far below \<open>2^53\<close>), and the one division of the program is taken in the reals. Negative
  zero is not told apart from zero. A string is a list of 8-bit characters.
\<close>

subsection \<open>Values\<close>

datatype SetupState =
    GREETING
  | COLLECTING_BASIN
  | COLLECTING_SESSION
  | COLLECTING_TOKEN
  | TESTING_CONNECTION
  | STREAMING

text \<open>A JavaScript \<open>number\<close>, as \<open>parseInt\<close> and \<open>parseFloat\<close> return it.\<close>

datatype number = NaN | PosInfinity | NegInfinity | Fin real

text \<open>\<open>if (x)\<close> on a number: \<open>NaN\<close> and \<open>0\<close> are falsy.\<close>

fun truthy :: "number \<Rightarrow> bool" where
  "truthy NaN = False"
| "truthy (Fin x) = (x \<noteq> 0)"
| "truthy PosInfinity = True"
| "truthy NegInfinity = True"

text \<open>\<open>if (this.since)\<close> on a field of type \<open>number | undefined\<close>.\<close>

fun truthy_opt :: "number option \<Rightarrow> bool" where
  "truthy_opt None = False"
| "truthy_opt (Some n) = truthy n"

text \<open>\<open>x / y\<close> for a finite \<open>x\<close>, and \<open>x > 0\<close>.\<close>

fun divide_number :: "real \<Rightarrow> number \<Rightarrow> number" where
  "divide_number x NaN = NaN"
| "divide_number x PosInfinity = Fin 0"
| "divide_number x NegInfinity = Fin 0"
| "divide_number x (Fin y) =
     (if y \<noteq> 0 then Fin (x / y)
      else if 0 < x then PosInfinity
      else if x < 0 then NegInfinity
      else NaN)"

fun positive :: "number \<Rightarrow> bool" where
  "positive (Fin x) = (0 < x)"
| "positive PosInfinity = True"
| "positive NegInfinity = False"
| "positive NaN = False"

text \<open>
  \<open>new Date(t).toISOString()\<close> throws a \<open>RangeError\<close> unless \<open>t\<close> is a time value: finite
  and at most \<open>8.64e15\<close> in absolute value.
\<close>

fun validTime :: "number option \<Rightarrow> bool" where
  "validTime (Some (Fin x)) = (\<bar>x\<bar> \<le> 8640000000000000)"
| "validTime (Some NaN) = False"
| "validTime (Some PosInfinity) = False"
| "validTime (Some NegInfinity) = False"
| "validTime None = False"

text \<open>\<open>if (x)\<close> on a value of type \<open>string | null\<close>, and \<open>`${x}`\<close> on a string field.\<close>

fun truthy_string :: "string option \<Rightarrow> bool" where
  "truthy_string None = False"
| "truthy_string (Some x) = (x \<noteq> [])"

fun interpolate :: "string option \<Rightarrow> string" where
  "interpolate None = ''undefined''"
| "interpolate (Some x) = x"

text \<open>What a \<open>catch (error)\<close> clause can receive.\<close>

datatype error = TypeError | RangeError | Error string

text \<open>\<open>n.toString()\<close> for an integer \<open>n\<close>: its decimal digits, with a minus sign.\<close>

fun digits :: "nat \<Rightarrow> string" where
  "digits n =
     (if n < 10 then [''0123456789'' ! n]
      else digits (n div 10) @ [''0123456789'' ! (n mod 10)])"

declare digits.simps [simp del]

definition toString :: "int \<Rightarrow> string" where
  "toString i = (if i < 0 then CHR ''-'' # digits (nat (- i)) else digits (nat i))"

text \<open>
  \<open>String.prototype.trim\<close> on the code units below 256: TAB, LF, VT, FF, CR, space and
  the no-break space are white space.
\<close>

definition isWhiteSpace :: "char \<Rightarrow> bool" where
  "isWhiteSpace c = (of_char c \<in> {9, 10, 11, 12, 13, 32, 160 :: nat})"

definition trim :: "string \<Rightarrow> string" where
  "trim s = rev (dropWhile isWhiteSpace (rev (dropWhile isWhiteSpace s)))"

definition ESC :: char where
  "ESC = CHR 0x1B"

text \<open>
  A template literal, kept as its parts so that no number has to be printed:
  \<open>`Using basin: ${this.basin}`\<close> is \<open>[Lit ''Using basin: '', Str (basin s)]\<close>. A field that
  is still \<open>undefined\<close> is \<open>Str None\<close>.
\<close>

datatype part =
    Lit string
  | Str "string option"
  | Intg int
  | Num "number option"
  | IsoDate "number option"
  | Err error

type_synonym template = "part list"

subsection \<open>Records of the S2 streams\<close>

text \<open>The object literal passed to \<open>records.append\<close>.\<close>

record AppendRecord =
  append_body :: string
  append_headers :: "(string \<times> string) list"
  append_timestamp :: int

text \<open>
  \<open>SequencedRecord\<close> of the S2 SDK, as \<open>processRecord\<close> reads it. The timestamp is a
  number of milliseconds, so \<open>if (record.timestamp)\<close> fails for 0 only; the body may be
  missing.
\<close>

record SequencedRecord =
  seqNum :: int
  timestamp :: int
  body :: "string option"
  headers :: "(string \<times> string) list"

text \<open>
  \<open>ReadEvent\<close>: a batch of records, or some other event named by its \<open>event\<close> field. Each
  record of a batch comes with the value \<open>Date.now()\<close> returns while it is processed.
\<close>

datatype ReadEvent =
    Batch "(SequencedRecord \<times> int) list"
  | Other string

text \<open>\<open>readParams\<close> of \<open>startS2Streaming\<close>.\<close>

record ReadParams =
  read_stream :: "string option"
  read_s2Basin :: "string option"
  read_timestamp :: "number option"
  read_tailOffset :: "int option"

text \<open>The S2 client: \<open>new S2({accessToken: this.token})\<close>.\<close>

datatype S2 = S2 (accessToken: "string option")

subsection \<open>Calls to the outside\<close>

datatype effect =
    TermWrite template
  | TermWriteln template
  | ConsoleLog template
  | ConsoleError template
  | CheckTail S2 "string option" "string option"
  | Append S2 "string option" "string option" AppendRecord
  | Read S2 ReadParams
  | Sleep number
  | Uncaught error

text \<open>
  \<open>CheckTail c basin stream\<close>, \<open>Append c basin stream r\<close> and \<open>Read c params\<close> are the calls
  \<open>c.records.checkTail\<close>, \<open>c.records.append\<close> and \<open>c.records.read\<close>; \<open>Sleep ms\<close> is
  \<open>this.sleep(ms)\<close>, that is \<open>setTimeout(resolve, ms)\<close>; \<open>Uncaught e\<close> is an exception that
  leaves \<open>initialize\<close>.
\<close>

text \<open>What a handler reads from outside while it runs.\<close>

record env =
  now :: int
  termCols :: int
  termRows :: int
  checkTailResult :: "error + int \<times> int"
  appendResult :: "error option"
  readResult :: "error + bool"

text \<open>
  \<open>now\<close> is \<open>Date.now()\<close>; \<open>termCols\<close> and \<open>termRows\<close> are \<open>this.terminal.cols\<close> and
  \<open>this.terminal.rows\<close>; \<open>checkTailResult\<close> is the tail \<open>(seqNum, timestamp)\<close> or what
  \<open>checkTail\<close> throws; \<open>appendResult\<close> is what \<open>append\<close> throws, if it does; \<open>readResult\<close> is
  what \<open>read\<close> throws, or else whether its result has \<open>Symbol.asyncIterator\<close>.
\<close>

text \<open>The query string, as \<open>URLSearchParams.get\<close> returns its parameters.\<close>

record UrlParams =
  basinParam :: "string option"
  sessionParam :: "string option"
  tokenParam :: "string option"
  sinceParam :: "string option"
  speedupParam :: "string option"

text \<open>The two parsers of the runtime that \<open>startSetupFlow\<close> calls.\<close>

record Builtins =
  parseInt :: "string \<Rightarrow> number"
  parseFloat :: "string \<Rightarrow> number"

subsection \<open>The state\<close>

datatype loop = NotIterating | Iterating bool

text \<open>
  \<open>Iterating w\<close>: \<open>startS2Streaming\<close> is inside its \<open>for await\<close> loop, waiting for the next
  event of the stream; \<open>w\<close> tells whether \<open>handleSetupInput\<close> is waiting for it to return
  (its last statement, \<open>this.currentInput = ""\<close>, has then not run yet).
\<close>

record StreamingTerminal =
  basin :: "string option"
  sessionNumber :: "string option"
  token :: "string option"
  s2 :: "S2 option"
  setupState :: SetupState
  currentInput :: string
  keystrokes_stream :: "string option"
  pty_stream :: "string option"
  since :: "number option"
  speedup :: number
  lastRecordTimestamp :: "int option"
  isLiveMode :: bool
  trace :: "effect list"
  loop :: loop

text \<open>The field initialisers of the class; a field declared with \<open>!\<close> starts \<open>undefined\<close>.\<close>

definition constructor :: StreamingTerminal where
  "constructor =
     \<lparr> basin = None, sessionNumber = None, token = None, s2 = None,
       setupState = GREETING, currentInput = '''',
       keystrokes_stream = None, pty_stream = None,
       since = None, speedup = Fin 1, lastRecordTimestamp = None, isLiveMode = False,
       trace = [], loop = NotIterating \<rparr>"

definition emit :: "effect \<Rightarrow> StreamingTerminal \<Rightarrow> StreamingTerminal" where
  "emit x s = s\<lparr>trace := trace s @ [x]\<rparr>"

definition sleep :: "number \<Rightarrow> StreamingTerminal \<Rightarrow> StreamingTerminal" where
  "sleep ms = emit (Sleep ms)"

definition writeAsync :: "template \<Rightarrow> StreamingTerminal \<Rightarrow> StreamingTerminal" where
  "writeAsync data = emit (TermWrite data)"

definition writelnAsync :: "template \<Rightarrow> StreamingTerminal \<Rightarrow> StreamingTerminal" where
  "writelnAsync data = emit (TermWriteln data)"

subsection \<open>Appending to the input stream\<close>

definition sendKeystroke :: "string \<Rightarrow> env \<Rightarrow> StreamingTerminal \<Rightarrow> StreamingTerminal" where
  "sendKeystroke data e s =
     (case s2 s of
        None \<Rightarrow> emit (ConsoleError [Lit ''Failed to send keystroke to S2:'', Err TypeError]) s
      | Some client \<Rightarrow>
          let s = emit (Append client (basin s) (keystrokes_stream s)
                          \<lparr> append_body = data,
                            append_headers = [(''type'', ''keystroke'')],
                            append_timestamp = now e \<rparr>) s
          in (case appendResult e of
                None \<Rightarrow> s
              | Some err \<Rightarrow>
                  emit (ConsoleError [Lit ''Failed to send keystroke to S2:'', Err err]) s))"

definition sendWindowResize ::
  "int \<Rightarrow> int \<Rightarrow> env \<Rightarrow> StreamingTerminal \<Rightarrow> StreamingTerminal" where
  "sendWindowResize cols rows e s =
     (case s2 s of
        None \<Rightarrow> emit (ConsoleError [Lit ''Failed to send window resize to S2:'', Err TypeError]) s
      | Some client \<Rightarrow>
          let s = emit (Append client (basin s) (keystrokes_stream s)
                          \<lparr> append_body = [],
                            append_headers =
                              [(''type'', ''window''),
                               (''rows'', toString rows),
                               (''cols'', toString cols)],
                            append_timestamp = now e \<rparr>) s
          in (case appendResult e of
                None \<Rightarrow>
                  emit (ConsoleLog [Lit ''Sent window resize: '', Intg cols, Lit ''x'', Intg rows]) s
              | Some err \<Rightarrow>
                  emit (ConsoleError [Lit ''Failed to send window resize to S2:'', Err err]) s))"

subsection \<open>Reading the output stream\<close>

text \<open>The \<open>catch\<close> block of \<open>startS2Streaming\<close>.\<close>

definition catchStreamingError :: "error \<Rightarrow> StreamingTerminal \<Rightarrow> StreamingTerminal" where
  "catchStreamingError err s =
     (let s = emit (ConsoleError [Lit ''S2 streaming error:'', Err err]) s
      in writelnAsync [Lit (ESC # ''[31mStreaming error: ''), Err err, Lit (ESC # ''[0m'')] s)"

text \<open>
  \<open>startS2Streaming\<close> up to its loop. When \<open>read\<close> has returned an iterable stream the
  method stays in the loop (\<open>Iterating\<close>); the events of the stream are handled below.
\<close>

definition startS2Streaming :: "env \<Rightarrow> StreamingTerminal \<Rightarrow> StreamingTerminal" where
  "startS2Streaming e s =
     (let s = emit (ConsoleLog [Lit ''Starting S2 stream reading...'']) s;
          readParams = \<lparr> read_stream = pty_stream s, read_s2Basin = basin s,
                         read_timestamp = None, read_tailOffset = None \<rparr>;
          chosen =
            (if truthy_opt (since s) then
               if validTime (since s) then
                 Inr (readParams\<lparr>read_timestamp := since s\<rparr>,
                      emit (ConsoleLog [Lit ''Using timestamp: '', Num (since s), Lit '' ('',
                                        IsoDate (since s), Lit '')'']) s)
               else Inl RangeError
             else
               Inr (readParams\<lparr>read_tailOffset := Some 0\<rparr>,
                    (emit (ConsoleLog [Lit ''Starting from live tail'']) s)\<lparr>isLiveMode := True\<rparr>))
      in case chosen of
           Inl err \<Rightarrow> catchStreamingError err s
         | Inr (readParams, s) \<Rightarrow>
             (case s2 s of
                None \<Rightarrow> catchStreamingError TypeError s
              | Some client \<Rightarrow>
                  let s = emit (Read client readParams) s
                  in (case readResult e of
                        Inl err \<Rightarrow> catchStreamingError err s
                      | Inr iterable \<Rightarrow>
                          let s = writelnAsync
                                    [Lit (''Now reading from '' @ ESC # ''[32ms2://''),
                                     Str (basin s), Lit ''/'', Str (pty_stream s),
                                     Lit (ESC # ''[0m'')] s;
                              s = writelnAsync [Lit ''Terminal ready - start typing!''] s;
                              s = writelnAsync [Lit []] s
                          in if iterable then s\<lparr>loop := Iterating False\<rparr> else s)))"

definition processRecord ::
  "SequencedRecord \<Rightarrow> int \<Rightarrow> StreamingTerminal \<Rightarrow> StreamingTerminal" where
  "processRecord r dateNow s =
     (let s = (if timestamp r \<noteq> 0 then
                 let timeDiffFromNow = dateNow - timestamp r
                 in if timeDiffFromNow \<le> 5000 then
                      if \<not> isLiveMode s \<and> truthy_opt (since s) then
                        let s = emit (ConsoleLog
                                        [Lit ''Caught up to live time - entering live mode'']) s;
                            s = writelnAsync
                                  [Lit (ESC # ''[32m[Live mode activated]'' @ ESC # ''[0m'')] s
                        in s\<lparr>isLiveMode := True\<rparr>
                      else s
                    else s
               else s);
          s = (case lastRecordTimestamp s of
                 None \<Rightarrow> s
               | Some lastTimestamp \<Rightarrow>
                   if truthy_opt (since s) \<and> \<not> isLiveMode s \<and> timestamp r \<noteq> 0
                        \<and> lastTimestamp \<noteq> 0 then
                     let timeDiff = timestamp r - lastTimestamp;
                         adjustedDelay = divide_number (real_of_int timeDiff) (speedup s)
                     in if positive adjustedDelay then sleep adjustedDelay s else s
                   else s);
          s = s\<lparr>lastRecordTimestamp := Some (timestamp r)\<rparr>;
          text = (case body r of None \<Rightarrow> [] | Some b \<Rightarrow> b)
      in writeAsync [Str (Some text)] s)"

definition applyS2Record :: "ReadEvent \<Rightarrow> StreamingTerminal \<Rightarrow> StreamingTerminal" where
  "applyS2Record event s =
     (case event of
        Batch records \<Rightarrow> fold (\<lambda>(r, dateNow). processRecord r dateNow) records s
      | Other name \<Rightarrow>
          emit (ConsoleLog [Lit ''Received non-batch from S2 read: '', Str (Some name)]) s)"

subsection \<open>The setup flow\<close>

definition testS2Connection :: "env \<Rightarrow> StreamingTerminal \<Rightarrow> StreamingTerminal" where
  "testS2Connection e s =
     (let s = s\<lparr>s2 := Some (S2 (token s))\<rparr>;
          s = emit (CheckTail (S2 (token s)) (basin s) (keystrokes_stream s)) s
      in case checkTailResult e of
           Inr (tailSeqNum, tailTimestamp) \<Rightarrow>
             let s = writelnAsync
                       [Lit (ESC # ''[32mConnection successful!'' @ ESC # ''[0m'')] s;
                 s = writelnAsync [Lit []] s;
                 s = writelnAsync
                       [Lit (''Connected to '' @ ESC # ''[32ms2://''), Str (basin s), Lit ''/'',
                        Str (keystrokes_stream s), Lit (ESC # ''[0m'')] s;
                 s = writelnAsync
                       [Lit ''Current tail seqNum: '', Intg tailSeqNum, Lit '', timestamp: '',
                        Intg tailTimestamp] s;
                 s = writelnAsync [Lit []] s;
                 s = s\<lparr>setupState := STREAMING\<rparr>;
                 s = sendWindowResize (termCols e) (termRows e) e s
             in startS2Streaming e s
         | Inl err \<Rightarrow>
             let s = writelnAsync
                       [Lit (ESC # ''[31mConnection failed: ''), Err err, Lit (ESC # ''[0m'')] s;
                 s = writelnAsync [Lit []] s;
                 s = s\<lparr>setupState := COLLECTING_TOKEN\<rparr>;
                 s = writelnAsync [Lit ''Please enter S2 token: ''] s
             in writeAsync [Lit ''> ''] s)"

definition processSetupInput ::
  "string \<Rightarrow> env \<Rightarrow> StreamingTerminal \<Rightarrow> StreamingTerminal" where
  "processSetupInput input e s =
     (case setupState s of
        COLLECTING_BASIN \<Rightarrow>
          let s = s\<lparr>basin := Some input\<rparr>;
              s = s\<lparr>setupState := COLLECTING_SESSION\<rparr>;
              s = writelnAsync [Lit ''Please enter session number: ''] s
          in writeAsync [Lit ''% ''] s
      | COLLECTING_SESSION \<Rightarrow>
          let s = s\<lparr>sessionNumber := Some input\<rparr>;
              s = s\<lparr>keystrokes_stream :=
                       Some (''sessions/'' @ interpolate (sessionNumber s) @ ''/term_input'')\<rparr>;
              s = s\<lparr>pty_stream :=
                       Some (''sessions/'' @ interpolate (sessionNumber s) @ ''/term_output'')\<rparr>;
              s = s\<lparr>setupState := COLLECTING_TOKEN\<rparr>;
              s = writelnAsync [Lit ''Please enter S2 token: ''] s
          in writeAsync [Lit ''% ''] s
      | COLLECTING_TOKEN \<Rightarrow>
          let s = s\<lparr>token := Some input\<rparr>;
              s = s\<lparr>setupState := TESTING_CONNECTION\<rparr>;
              s = writelnAsync [Lit ''Testing S2 connection...''] s
          in testS2Connection e s
      | _ \<Rightarrow> s)"

text \<open>
  \<open>handleSetupInput\<close>. After Enter, the assignment \<open>this.currentInput = ""\<close> waits for
  \<open>processSetupInput\<close> to return; when that call has entered the loop of
  \<open>startS2Streaming\<close> the assignment is left to \<open>leaveLoop\<close>.
\<close>

definition handleSetupInput ::
  "string \<Rightarrow> env \<Rightarrow> StreamingTerminal \<Rightarrow> StreamingTerminal" where
  "handleSetupInput data e s =
     (if data = [CHR 0x0D] then
        let s = writelnAsync [Lit []] s;
            s = processSetupInput (trim (currentInput s)) e s
        in case loop s of
             NotIterating \<Rightarrow> s\<lparr>currentInput := []\<rparr>
           | Iterating w \<Rightarrow> s\<lparr>loop := Iterating True\<rparr>
      else if data = [CHR 0x7F] then
        if length (currentInput s) > 0 then
          let s = s\<lparr>currentInput := butlast (currentInput s)\<rparr>
          in writeAsync [Lit [CHR 0x08, CHR '' '', CHR 0x08]] s
        else s
      else if data \<ge> '' '' \<and> data \<le> ''~'' then
        let s = s\<lparr>currentInput := currentInput s @ data\<rparr>
        in writeAsync [Str (Some data)] s
      else s)"

text \<open>
  The two conversions of \<open>startSetupFlow\<close>:
  \<open>sinceParam ? parseInt(sinceParam) : undefined\<close> and
  \<open>speedupParam ? parseFloat(speedupParam) : 1\<close>.
\<close>

definition sinceOfParam :: "Builtins \<Rightarrow> string option \<Rightarrow> number option" where
  "sinceOfParam js param =
     (if truthy_string param then Some (parseInt js (interpolate param)) else None)"

definition speedupOfParam :: "Builtins \<Rightarrow> string option \<Rightarrow> number" where
  "speedupOfParam js param =
     (if truthy_string param then parseFloat js (interpolate param) else Fin 1)"

definition startSetupFlow ::
  "Builtins \<Rightarrow> UrlParams \<Rightarrow> env \<Rightarrow> StreamingTerminal \<Rightarrow> StreamingTerminal" where
  "startSetupFlow js urlParams e s =
     (let s = writelnAsync [Lit (''s2.term '' @ [CHR 0xF0, CHR 0x9F, CHR 0x8C, CHR 0x8A])] s;
          s = writelnAsync [Lit []] s
      in if truthy_string (basinParam urlParams) \<and> truthy_string (sessionParam urlParams)
              \<and> truthy_string (tokenParam urlParams) then
           let s = s\<lparr>basin := basinParam urlParams\<rparr>;
               s = s\<lparr>sessionNumber := sessionParam urlParams\<rparr>;
               s = s\<lparr>token := tokenParam urlParams\<rparr>;
               s = s\<lparr>since := sinceOfParam js (sinceParam urlParams)\<rparr>;
               s = s\<lparr>speedup := speedupOfParam js (speedupParam urlParams)\<rparr>;
               s = s\<lparr>keystrokes_stream :=
                        Some (''sessions/'' @ interpolate (sessionNumber s) @ ''/term_input'')\<rparr>;
               s = s\<lparr>pty_stream :=
                        Some (''sessions/'' @ interpolate (sessionNumber s) @ ''/term_output'')\<rparr>;
               s = writelnAsync [Lit ''Using basin: '', Str (basin s)] s;
               s = writelnAsync [Lit ''Using session: '', Str (sessionNumber s)] s
           in if truthy_opt (since s) \<and> \<not> validTime (since s) then emit (Uncaught RangeError) s
              else
                let s = (if truthy_opt (since s) then
                           let s = writelnAsync
                                     [Lit ''Starting from timestamp: '', Num (since s), Lit '' ('',
                                      IsoDate (since s), Lit '')''] s
                           in writelnAsync [Lit ''Speedup: '', Num (Some (speedup s)), Lit ''x''] s
                         else s);
                    s = writelnAsync [Lit ''Testing S2 connection...''] s;
                    s = s\<lparr>setupState := TESTING_CONNECTION\<rparr>
                in testS2Connection e s
         else
           let s = s\<lparr>setupState := COLLECTING_BASIN\<rparr>;
               s = writelnAsync [Lit ''Please enter basin name: ''] s
           in writeAsync [Lit ''% ''] s)"

definition initialize ::
  "bool \<Rightarrow> Builtins \<Rightarrow> UrlParams \<Rightarrow> env \<Rightarrow> StreamingTerminal \<Rightarrow> StreamingTerminal" where
  "initialize container js urlParams e s =
     (if \<not> container then emit (Uncaught (Error ''Terminal container not found'')) s
      else startSetupFlow js urlParams e s)"

subsection \<open>Event handlers\<close>

text \<open>The two callbacks of \<open>setupEventHandlers\<close>.\<close>

definition onData :: "string \<Rightarrow> env \<Rightarrow> StreamingTerminal \<Rightarrow> StreamingTerminal" where
  "onData data e s =
     (if setupState s = STREAMING then sendKeystroke data e s
      else handleSetupInput data e s)"

definition onResize :: "int \<Rightarrow> int \<Rightarrow> env \<Rightarrow> StreamingTerminal \<Rightarrow> StreamingTerminal" where
  "onResize cols rows e s =
     (let s = emit (ConsoleLog [Lit ''Terminal resized to '', Intg cols, Lit ''x'', Intg rows]) s
      in if setupState s = STREAMING then sendWindowResize cols rows e s else s)"

text \<open>
  Leaving the loop of \<open>startS2Streaming\<close>: the callers return, and a waiting
  \<open>handleSetupInput\<close> runs its last statement.
\<close>

definition leaveLoop :: "StreamingTerminal \<Rightarrow> StreamingTerminal" where
  "leaveLoop s =
     (case loop s of
        Iterating True \<Rightarrow> s\<lparr>loop := NotIterating, currentInput := []\<rparr>
      | _ \<Rightarrow> s\<lparr>loop := NotIterating\<rparr>)"

text \<open>
  What can happen to the page once it is loaded: the terminal reports input or a new
  size, or the stream being iterated yields an event, throws, or ends.
\<close>

datatype event =
    Data string
  | Resize int int
  | StreamEvent ReadEvent
  | StreamError error
  | StreamEnd

fun handle :: "event \<times> env \<Rightarrow> StreamingTerminal \<Rightarrow> StreamingTerminal" where
  "handle (Data data, e) s = onData data e s"
| "handle (Resize cols rows, e) s = onResize cols rows e s"
| "handle (StreamEvent event, e) s =
     (case loop s of
        Iterating w \<Rightarrow> applyS2Record event s
      | NotIterating \<Rightarrow> s)"
| "handle (StreamError err, e) s =
     (case loop s of
        Iterating w \<Rightarrow> leaveLoop (catchStreamingError err s)
      | NotIterating \<Rightarrow> s)"
| "handle (StreamEnd, e) s =
     (case loop s of
        Iterating w \<Rightarrow> leaveLoop s
      | NotIterating \<Rightarrow> s)"

text \<open>
  A run of the page: \<open>DOMContentLoaded\<close> constructs the object and calls \<open>initialize\<close>;
  then the events are handled in the order they arrive.
\<close>

definition run ::
  "bool \<Rightarrow> Builtins \<Rightarrow> UrlParams \<Rightarrow> env \<Rightarrow> (event \<times> env) list \<Rightarrow> StreamingTerminal" where
  "run container js urlParams e events =
     fold handle events (initialize container js urlParams e constructor)"

subsection \<open>Observing a trace\<close>

fun isAppend :: "effect \<Rightarrow> bool" where
  "isAppend (Append client b stream r) = True"
| "isAppend _ = False"

fun isRead :: "effect \<Rightarrow> bool" where
  "isRead (Read client params) = True"
| "isRead _ = False"

fun isSleep :: "effect \<Rightarrow> bool" where
  "isSleep (Sleep ms) = True"
| "isSleep _ = False"

text \<open>A read that starts at the tail of the stream: \<open>tailOffset: 0\<close> and no \<open>timestamp\<close>.\<close>

fun fromTail :: "effect \<Rightarrow> bool" where
  "fromTail (Read client params) =
     (read_tailOffset params = Some 0 \<and> read_timestamp params = None)"
| "fromTail _ = True"

text \<open>The line \<open>processRecord\<close> writes when it leaves replay for live mode.\<close>

definition liveModeActivated :: effect where
  "liveModeActivated = TermWriteln [Lit (ESC # ''[32m[Live mode activated]'' @ ESC # ''[0m'')]"

text \<open>
  What a session without \<open>since\<close> may do: no sleep, no read but from the tail, and never
  the line of the catch-up.
\<close>

definition unpaced :: "effect \<Rightarrow> bool" where
  "unpaced x = (\<not> isSleep x \<and> fromTail x \<and> x \<noteq> liveModeActivated)"

definition tailing :: "StreamingTerminal \<Rightarrow> bool" where
  "tailing s =
     (\<not> truthy_opt (since s) \<and> list_all unpaced (trace s) \<and>
      (filter isRead (trace s) \<noteq> [] \<longrightarrow> isLiveMode s))"

text \<open>
  The read that \<open>startS2Streaming\<close> issues in a session without \<open>since\<close>: by the client
  made from the token, on the output stream of the session, with \<open>tailOffset: 0\<close> and no
  \<open>timestamp\<close>. A session without \<open>since\<close> has issued this read, once, exactly when it
  streams.
\<close>

definition tailRead :: "StreamingTerminal \<Rightarrow> effect" where
  "tailRead s =
     Read (S2 (token s))
       \<lparr> read_stream = pty_stream s, read_s2Basin = basin s,
         read_timestamp = None, read_tailOffset = Some 0 \<rparr>"

definition tailReader :: "StreamingTerminal \<Rightarrow> bool" where
  "tailReader s =
     (\<not> truthy_opt (since s) \<and>
      filter isRead (trace s) = (if setupState s = STREAMING then [tailRead s] else []))"

text \<open>
  The two shapes of a record of the input stream: a keystroke, and a window size with
  its rows and columns in decimal.
\<close>

definition isDecimal :: "string \<Rightarrow> bool" where
  "isDecimal v =
     (let ds = (case v of [] \<Rightarrow> [] | c # cs \<Rightarrow> if c = CHR ''-'' then cs else v)
      in ds \<noteq> [] \<and> list_all (\<lambda>c. c \<in> set ''0123456789'') ds)"

definition keystrokeShape :: "AppendRecord \<Rightarrow> bool" where
  "keystrokeShape r = (append_headers r = [(''type'', ''keystroke'')])"

definition windowShape :: "AppendRecord \<Rightarrow> bool" where
  "windowShape r =
     (append_body r = [] \<and>
      (case append_headers r of
         [(k1, v1), (k2, v2), (k3, v3)] \<Rightarrow>
           k1 = ''type'' \<and> v1 = ''window'' \<and> k2 = ''rows'' \<and> isDecimal v2
             \<and> k3 = ''cols'' \<and> isDecimal v3
       | _ \<Rightarrow> False))"

fun wireShape :: "effect \<Rightarrow> bool" where
  "wireShape (Append client b stream r) = (keystrokeShape r \<or> windowShape r)"
| "wireShape _ = True"

text \<open>
  The records that \<open>sendKeystroke\<close> and \<open>sendWindowResize\<close> build, as functions of their
  arguments and of the clock.
\<close>

definition keystrokeRecord :: "string \<Rightarrow> int \<Rightarrow> AppendRecord" where
  "keystrokeRecord data t =
     \<lparr> append_body = data, append_headers = [(''type'', ''keystroke'')],
       append_timestamp = t \<rparr>"

definition windowRecord :: "int \<Rightarrow> int \<Rightarrow> int \<Rightarrow> AppendRecord" where
  "windowRecord cols rows t =
     \<lparr> append_body = [],
       append_headers =
         [(''type'', ''window''), (''rows'', toString rows), (''cols'', toString cols)],
       append_timestamp = t \<rparr>"

text \<open>The number a string of decimal digits stands for.\<close>

definition decimalValue :: "string \<Rightarrow> nat" where
  "decimalValue ds = foldl (\<lambda>a c. 10 * a + (of_char c - 48)) 0 ds"

text \<open>
  What holds of the state between two events: a streaming terminal has its S2 client, and
  the loop of \<open>startS2Streaming\<close> runs only in a streaming terminal that is live or has a
  \<open>since\<close> to replay from.
\<close>

definition wellFormed :: "StreamingTerminal \<Rightarrow> bool" where
  "wellFormed s =
     ((setupState s = STREAMING \<longrightarrow> s2 s \<noteq> None) \<and>
      (loop s \<noteq> NotIterating \<longrightarrow>
         setupState s = STREAMING \<and> (isLiveMode s \<or> truthy_opt (since s))))"

subsection \<open>A session used in the examples\<close>

text \<open>
  The page is opened with
  \<open>?basin=s2term-00001&session=0001&token=MY_TOKEN&since=1700000000000&speedup=5\<close>,
  five and a half seconds after the instant \<open>since\<close>; the terminal has 100 columns and
  40 rows and S2 answers every call. \<open>example_js\<close> gives the two parsers on the strings
  the examples use.
\<close>

definition example_js :: Builtins where
  "example_js =
     \<lparr> parseInt = (\<lambda>x. if x = ''1700000000000'' then Fin 1700000000000
                         else if x = ''0'' then Fin 0 else NaN),
       parseFloat = (\<lambda>x. if x = ''5'' then Fin 5 else NaN) \<rparr>"

definition example_env :: env where
  "example_env =
     \<lparr> now = 1700000005500, termCols = 100, termRows = 40,
       checkTailResult = Inr (12, 1700000005000),
       appendResult = None, readResult = Inr True \<rparr>"

definition failing_env :: env where
  "failing_env = example_env\<lparr>appendResult := Some (Error ''Failed to fetch'')\<rparr>"

definition replay_params :: UrlParams where
  "replay_params =
     \<lparr> basinParam = Some ''s2term-00001'', sessionParam = Some ''0001'',
       tokenParam = Some ''MY_TOKEN'', sinceParam = Some ''1700000000000'',
       speedupParam = Some ''5'' \<rparr>"

definition live_params :: UrlParams where
  "live_params = replay_params\<lparr>sinceParam := None, speedupParam := None\<rparr>"

definition since_zero_params :: UrlParams where
  "since_zero_params = replay_params\<lparr>sinceParam := Some ''0''\<rparr>"

definition no_params :: UrlParams where
  "no_params =
     \<lparr> basinParam = None, sessionParam = None, tokenParam = None, sinceParam = None,
       speedupParam = None \<rparr>"

definition output_record :: "int \<Rightarrow> int \<Rightarrow> SequencedRecord" where
  "output_record n t = \<lparr> seqNum = n, timestamp = t, body = Some ''$ '', headers = [] \<rparr>"

text \<open>The session in replay, after the first record of the output stream.\<close>

definition replaying_example :: StreamingTerminal where
  "replaying_example =
     run True example_js replay_params example_env
       [(StreamEvent (Batch [(output_record 0 1700000000000, 1700000005600)]), example_env)]"

text \<open>
  The next record is 700 ms old when it arrives: the session has caught up and goes live.
\<close>

definition caught_up_example :: StreamingTerminal where
  "caught_up_example =
     handle (StreamEvent (Batch [(output_record 1 1700000005000, 1700000005700)]), example_env)
       replaying_example"

text \<open>The session opened without \<open>since\<close>: it reads from the tail, live.\<close>

definition live_example :: StreamingTerminal where
  "live_example = run True example_js live_params example_env []"

text \<open>
  The interactive setup, up to the token typed at its prompt: Enter is the next key.
\<close>

definition token_typed_example :: StreamingTerminal where
  "token_typed_example =
     run True example_js no_params example_env
       [(Data ''s2term-00001'', example_env), (Data [CHR 0x0D], example_env),
        (Data ''0001'', example_env), (Data [CHR 0x0D], example_env),
        (Data ''MY_TOKEN'', example_env)]"

section \<open>Lemmas\<close>

subsection \<open>What each method leaves unchanged\<close>

lemma emit_fields [simp]:
  "basin (emit x s) = basin s" "sessionNumber (emit x s) = sessionNumber s"
  "token (emit x s) = token s" "s2 (emit x s) = s2 s" "setupState (emit x s) = setupState s"
  "currentInput (emit x s) = currentInput s" "keystrokes_stream (emit x s) = keystrokes_stream s"
  "pty_stream (emit x s) = pty_stream s" "since (emit x s) = since s" "speedup (emit x s) = speedup s"
  "lastRecordTimestamp (emit x s) = lastRecordTimestamp s" "isLiveMode (emit x s) = isLiveMode s"
  "loop (emit x s) = loop s" "trace (emit x s) = trace s @ [x]"
  by (simp_all add: emit_def)

lemma sendKeystroke_frame [simp]:
  "basin (sendKeystroke data e s) = basin s"
  "sessionNumber (sendKeystroke data e s) = sessionNumber s"
  "token (sendKeystroke data e s) = token s"
  "s2 (sendKeystroke data e s) = s2 s"
  "setupState (sendKeystroke data e s) = setupState s"
  "currentInput (sendKeystroke data e s) = currentInput s"
  "keystrokes_stream (sendKeystroke data e s) = keystrokes_stream s"
  "pty_stream (sendKeystroke data e s) = pty_stream s"
  "since (sendKeystroke data e s) = since s"
  "speedup (sendKeystroke data e s) = speedup s"
  "lastRecordTimestamp (sendKeystroke data e s) = lastRecordTimestamp s"
  "isLiveMode (sendKeystroke data e s) = isLiveMode s"
  "loop (sendKeystroke data e s) = loop s"
  by (simp_all add: sendKeystroke_def Let_def split: option.splits)

lemma sendWindowResize_frame [simp]:
  "basin (sendWindowResize cols rows e s) = basin s"
  "sessionNumber (sendWindowResize cols rows e s) = sessionNumber s"
  "token (sendWindowResize cols rows e s) = token s"
  "s2 (sendWindowResize cols rows e s) = s2 s"
  "setupState (sendWindowResize cols rows e s) = setupState s"
  "currentInput (sendWindowResize cols rows e s) = currentInput s"
  "keystrokes_stream (sendWindowResize cols rows e s) = keystrokes_stream s"
  "pty_stream (sendWindowResize cols rows e s) = pty_stream s"
  "since (sendWindowResize cols rows e s) = since s"
  "speedup (sendWindowResize cols rows e s) = speedup s"
  "lastRecordTimestamp (sendWindowResize cols rows e s) = lastRecordTimestamp s"
  "isLiveMode (sendWindowResize cols rows e s) = isLiveMode s"
  "loop (sendWindowResize cols rows e s) = loop s"
  by (simp_all add: sendWindowResize_def Let_def split: option.splits)

lemma catchStreamingError_frame [simp]:
  "basin (catchStreamingError err s) = basin s"
  "sessionNumber (catchStreamingError err s) = sessionNumber s"
  "token (catchStreamingError err s) = token s"
  "s2 (catchStreamingError err s) = s2 s"
  "setupState (catchStreamingError err s) = setupState s"
  "currentInput (catchStreamingError err s) = currentInput s"
  "keystrokes_stream (catchStreamingError err s) = keystrokes_stream s"
  "pty_stream (catchStreamingError err s) = pty_stream s"
  "since (catchStreamingError err s) = since s"
  "speedup (catchStreamingError err s) = speedup s"
  "lastRecordTimestamp (catchStreamingError err s) = lastRecordTimestamp s"
  "isLiveMode (catchStreamingError err s) = isLiveMode s"
  "loop (catchStreamingError err s) = loop s"
  by (simp_all add: catchStreamingError_def writelnAsync_def Let_def)

lemma processRecord_frame [simp]:
  "basin (processRecord r dateNow s) = basin s"
  "sessionNumber (processRecord r dateNow s) = sessionNumber s"
  "token (processRecord r dateNow s) = token s"
  "s2 (processRecord r dateNow s) = s2 s"
  "setupState (processRecord r dateNow s) = setupState s"
  "currentInput (processRecord r dateNow s) = currentInput s"
  "keystrokes_stream (processRecord r dateNow s) = keystrokes_stream s"
  "pty_stream (processRecord r dateNow s) = pty_stream s"
  "since (processRecord r dateNow s) = since s"
  "speedup (processRecord r dateNow s) = speedup s"
  "loop (processRecord r dateNow s) = loop s"
  by (simp_all add: processRecord_def writelnAsync_def writeAsync_def sleep_def Let_def split: option.splits)

lemma startS2Streaming_frame [simp]:
  "basin (startS2Streaming e s) = basin s"
  "sessionNumber (startS2Streaming e s) = sessionNumber s"
  "token (startS2Streaming e s) = token s"
  "s2 (startS2Streaming e s) = s2 s"
  "setupState (startS2Streaming e s) = setupState s"
  "currentInput (startS2Streaming e s) = currentInput s"
  "keystrokes_stream (startS2Streaming e s) = keystrokes_stream s"
  "pty_stream (startS2Streaming e s) = pty_stream s"
  "since (startS2Streaming e s) = since s"
  "speedup (startS2Streaming e s) = speedup s"
  "lastRecordTimestamp (startS2Streaming e s) = lastRecordTimestamp s"
  by (simp_all add: startS2Streaming_def writelnAsync_def Let_def split: option.splits sum.splits)

lemma testS2Connection_frame [simp]:
  "basin (testS2Connection e s) = basin s"
  "sessionNumber (testS2Connection e s) = sessionNumber s"
  "token (testS2Connection e s) = token s"
  "currentInput (testS2Connection e s) = currentInput s"
  "keystrokes_stream (testS2Connection e s) = keystrokes_stream s"
  "pty_stream (testS2Connection e s) = pty_stream s"
  "since (testS2Connection e s) = since s"
  "speedup (testS2Connection e s) = speedup s"
  "lastRecordTimestamp (testS2Connection e s) = lastRecordTimestamp s"
  by (simp_all add: testS2Connection_def writelnAsync_def writeAsync_def Let_def split: sum.splits)

lemma processSetupInput_frame [simp]:
  "currentInput (processSetupInput input e s) = currentInput s"
  "since (processSetupInput input e s) = since s"
  "speedup (processSetupInput input e s) = speedup s"
  "lastRecordTimestamp (processSetupInput input e s) = lastRecordTimestamp s"
  by (simp_all add: processSetupInput_def writelnAsync_def writeAsync_def Let_def split: SetupState.splits)

lemma handleSetupInput_frame [simp]:
  "since (handleSetupInput data e s) = since s"
  "speedup (handleSetupInput data e s) = speedup s"
  "lastRecordTimestamp (handleSetupInput data e s) = lastRecordTimestamp s"
  by (simp_all add: handleSetupInput_def writelnAsync_def writeAsync_def Let_def split: loop.splits)

lemma leaveLoop_frame [simp]:
  "basin (leaveLoop s) = basin s"
  "sessionNumber (leaveLoop s) = sessionNumber s"
  "token (leaveLoop s) = token s"
  "s2 (leaveLoop s) = s2 s"
  "setupState (leaveLoop s) = setupState s"
  "keystrokes_stream (leaveLoop s) = keystrokes_stream s"
  "pty_stream (leaveLoop s) = pty_stream s"
  "since (leaveLoop s) = since s"
  "speedup (leaveLoop s) = speedup s"
  "lastRecordTimestamp (leaveLoop s) = lastRecordTimestamp s"
  "isLiveMode (leaveLoop s) = isLiveMode s"
  "trace (leaveLoop s) = trace s"
  by (simp_all add: leaveLoop_def split: loop.splits bool.splits)


lemma processRecords_frame [simp]:
  "basin (fold (\<lambda>(r, dateNow). processRecord r dateNow) records s) = basin s"
  "sessionNumber (fold (\<lambda>(r, dateNow). processRecord r dateNow) records s) = sessionNumber s"
  "token (fold (\<lambda>(r, dateNow). processRecord r dateNow) records s) = token s"
  "s2 (fold (\<lambda>(r, dateNow). processRecord r dateNow) records s) = s2 s"
  "setupState (fold (\<lambda>(r, dateNow). processRecord r dateNow) records s) = setupState s"
  "currentInput (fold (\<lambda>(r, dateNow). processRecord r dateNow) records s) = currentInput s"
  "keystrokes_stream (fold (\<lambda>(r, dateNow). processRecord r dateNow) records s) = keystrokes_stream s"
  "pty_stream (fold (\<lambda>(r, dateNow). processRecord r dateNow) records s) = pty_stream s"
  "since (fold (\<lambda>(r, dateNow). processRecord r dateNow) records s) = since s"
  "speedup (fold (\<lambda>(r, dateNow). processRecord r dateNow) records s) = speedup s"
  "loop (fold (\<lambda>(r, dateNow). processRecord r dateNow) records s) = loop s"
  by (induction records arbitrary: s; simp add: split_def)+

lemma applyS2Record_frame [simp]:
  "basin (applyS2Record event s) = basin s"
  "sessionNumber (applyS2Record event s) = sessionNumber s"
  "token (applyS2Record event s) = token s"
  "s2 (applyS2Record event s) = s2 s"
  "setupState (applyS2Record event s) = setupState s"
  "currentInput (applyS2Record event s) = currentInput s"
  "keystrokes_stream (applyS2Record event s) = keystrokes_stream s"
  "pty_stream (applyS2Record event s) = pty_stream s"
  "since (applyS2Record event s) = since s"
  "speedup (applyS2Record event s) = speedup s"
  "loop (applyS2Record event s) = loop s"
  by (cases event; simp add: applyS2Record_def)+


lemma onData_frame [simp]:
  "since (onData data e s) = since s"
  "speedup (onData data e s) = speedup s"
  "lastRecordTimestamp (onData data e s) = lastRecordTimestamp s"
  by (simp_all add: onData_def)

lemma onResize_frame [simp]:
  "basin (onResize cols rows e s) = basin s"
  "sessionNumber (onResize cols rows e s) = sessionNumber s"
  "token (onResize cols rows e s) = token s"
  "s2 (onResize cols rows e s) = s2 s"
  "setupState (onResize cols rows e s) = setupState s"
  "currentInput (onResize cols rows e s) = currentInput s"
  "keystrokes_stream (onResize cols rows e s) = keystrokes_stream s"
  "pty_stream (onResize cols rows e s) = pty_stream s"
  "since (onResize cols rows e s) = since s"
  "speedup (onResize cols rows e s) = speedup s"
  "lastRecordTimestamp (onResize cols rows e s) = lastRecordTimestamp s"
  "isLiveMode (onResize cols rows e s) = isLiveMode s"
  "loop (onResize cols rows e s) = loop s"
  by (simp_all add: onResize_def Let_def)

lemma handle_pair_frame:
  "since (handle (x, e) s) = since s"
  "speedup (handle (x, e) s) = speedup s"
  by (cases x; simp split: loop.split)+

lemma handle_frame [simp]:
  "since (handle ev s) = since s"
  "speedup (handle ev s) = speedup s"
  by (cases ev; simp add: handle_pair_frame)+

lemma fold_handle_frame [simp]:
  "since (fold handle events s) = since s"
  "speedup (fold handle events s) = speedup s"
  by (induction events arbitrary: s; simp)+

subsection \<open>Live mode is never left\<close>

lemma processRecord_live: "isLiveMode s \<Longrightarrow> isLiveMode (processRecord r dateNow s)"
  by (simp add: processRecord_def writeAsync_def writelnAsync_def sleep_def Let_def
      split: option.split)

lemma processRecords_live:
  "isLiveMode s \<Longrightarrow> isLiveMode (fold (\<lambda>(r, dateNow). processRecord r dateNow) records s)"
  by (induction records arbitrary: s) (auto simp: processRecord_live)

lemma applyS2Record_live: "isLiveMode s \<Longrightarrow> isLiveMode (applyS2Record event s)"
  by (cases event) (simp_all add: applyS2Record_def processRecords_live)

lemma startS2Streaming_live: "isLiveMode s \<Longrightarrow> isLiveMode (startS2Streaming e s)"
  by (simp add: startS2Streaming_def writelnAsync_def Let_def split: option.split sum.split)

lemma testS2Connection_live: "isLiveMode s \<Longrightarrow> isLiveMode (testS2Connection e s)"
  by (simp add: testS2Connection_def writelnAsync_def writeAsync_def Let_def
      startS2Streaming_live split: sum.split)

lemma processSetupInput_live: "isLiveMode s \<Longrightarrow> isLiveMode (processSetupInput input e s)"
  by (simp add: processSetupInput_def writelnAsync_def writeAsync_def Let_def
      testS2Connection_live split: SetupState.split)

lemma handleSetupInput_live: "isLiveMode s \<Longrightarrow> isLiveMode (handleSetupInput data e s)"
  by (simp add: handleSetupInput_def writelnAsync_def writeAsync_def Let_def
      processSetupInput_live split: loop.split)

lemma handle_pair_live: "isLiveMode s \<Longrightarrow> isLiveMode (handle (x, e) s)"
  by (cases x)
    (simp_all add: onData_def handleSetupInput_live applyS2Record_live split: loop.split)

lemma handle_live: "isLiveMode s \<Longrightarrow> isLiveMode (handle ev s)"
  by (cases ev) (simp add: handle_pair_live)

lemma fold_handle_live: "isLiveMode s \<Longrightarrow> isLiveMode (fold handle events s)"
  by (induction events arbitrary: s) (simp_all add: handle_live)

lemma initialize_live: "isLiveMode s \<Longrightarrow> isLiveMode (initialize container js urlParams e s)"
  by (simp add: initialize_def startSetupFlow_def writelnAsync_def writeAsync_def Let_def
      testS2Connection_live)

subsection \<open>Once streaming, always streaming\<close>

lemma handle_pair_streaming:
  "setupState s = STREAMING \<Longrightarrow> setupState (handle (x, e) s) = STREAMING"
  by (cases x) (simp_all add: onData_def split: loop.split)

lemma handle_streaming: "setupState s = STREAMING \<Longrightarrow> setupState (handle ev s) = STREAMING"
  by (cases ev) (simp add: handle_pair_streaming)

lemma fold_handle_streaming:
  "setupState s = STREAMING \<Longrightarrow> setupState (fold handle events s) = STREAMING"
  by (induction events arbitrary: s) (simp_all add: handle_streaming)

subsection \<open>The example session\<close>

lemmas example_defs =
  run_def initialize_def startSetupFlow_def testS2Connection_def sendWindowResize_def
  startS2Streaming_def applyS2Record_def processRecord_def onData_def onResize_def
  handleSetupInput_def processSetupInput_def sendKeystroke_def catchStreamingError_def
  leaveLoop_def writeAsync_def writelnAsync_def sleep_def emit_def constructor_def
  example_js_def example_env_def failing_env_def replay_params_def live_params_def
  since_zero_params_def no_params_def output_record_def trim_def isWhiteSpace_def
  toString_def digits.simps sinceOfParam_def speedupOfParam_def

lemma replaying_example_state:
  "\<exists>t. replaying_example =
     \<lparr> basin = Some ''s2term-00001'', sessionNumber = Some ''0001'', token = Some ''MY_TOKEN'',
       s2 = Some (S2 (Some ''MY_TOKEN'')), setupState = STREAMING, currentInput = [],
       keystrokes_stream = Some ''sessions/0001/term_input'',
       pty_stream = Some ''sessions/0001/term_output'',
       since = Some (Fin 1700000000000), speedup = Fin 5,
       lastRecordTimestamp = Some 1700000000000, isLiveMode = False,
       trace = t, loop = Iterating False \<rparr>
     \<and> filter isAppend t =
         [Append (S2 (Some ''MY_TOKEN'')) (Some ''s2term-00001'') (Some ''sessions/0001/term_input'')
            \<lparr> append_body = [],
              append_headers = [(''type'', ''window''), (''rows'', ''40''), (''cols'', ''100'')],
              append_timestamp = 1700000005500 \<rparr>]
     \<and> filter isRead t =
         [Read (S2 (Some ''MY_TOKEN''))
            \<lparr> read_stream = Some ''sessions/0001/term_output'',
              read_s2Basin = Some ''s2term-00001'',
              read_timestamp = Some (Fin 1700000000000), read_tailOffset = None \<rparr>]
     \<and> filter isSleep t = []"
  by (simp add: replaying_example_def example_defs)

lemma live_example_state:
  "\<exists>t. live_example =
     \<lparr> basin = Some ''s2term-00001'', sessionNumber = Some ''0001'', token = Some ''MY_TOKEN'',
       s2 = Some (S2 (Some ''MY_TOKEN'')), setupState = STREAMING, currentInput = [],
       keystrokes_stream = Some ''sessions/0001/term_input'',
       pty_stream = Some ''sessions/0001/term_output'',
       since = None, speedup = Fin 1, lastRecordTimestamp = None, isLiveMode = True,
       trace = t, loop = Iterating False \<rparr>
     \<and> filter isRead t =
         [Read (S2 (Some ''MY_TOKEN''))
            \<lparr> read_stream = Some ''sessions/0001/term_output'',
              read_s2Basin = Some ''s2term-00001'',
              read_timestamp = None, read_tailOffset = Some 0 \<rparr>]"
  by (simp add: live_example_def example_defs)

lemma token_typed_example_state:
  "\<exists>t. token_typed_example =
     \<lparr> basin = Some ''s2term-00001'', sessionNumber = Some ''0001'', token = None,
       s2 = None, setupState = COLLECTING_TOKEN, currentInput = ''MY_TOKEN'',
       keystrokes_stream = Some ''sessions/0001/term_input'',
       pty_stream = Some ''sessions/0001/term_output'',
       since = None, speedup = Fin 1, lastRecordTimestamp = None, isLiveMode = False,
       trace = t, loop = NotIterating \<rparr>
     \<and> filter isAppend t = []"
  by (simp add: token_typed_example_def example_defs)

lemma replaying_example_fields:
  "setupState replaying_example = STREAMING"
  "s2 replaying_example = Some (S2 (Some ''MY_TOKEN''))"
  "basin replaying_example = Some ''s2term-00001''"
  "keystrokes_stream replaying_example = Some ''sessions/0001/term_input''"
  "since replaying_example = Some (Fin 1700000000000)"
  "speedup replaying_example = Fin 5"
  "lastRecordTimestamp replaying_example = Some 1700000000000"
  "isLiveMode replaying_example = False"
  "loop replaying_example = Iterating False"
  "filter isSleep (trace replaying_example) = []"
  "filter isAppend (trace replaying_example) =
     [Append (S2 (Some ''MY_TOKEN'')) (Some ''s2term-00001'') (Some ''sessions/0001/term_input'')
        \<lparr> append_body = [],
          append_headers = [(''type'', ''window''), (''rows'', ''40''), (''cols'', ''100'')],
          append_timestamp = 1700000005500 \<rparr>]"
  "filter isRead (trace replaying_example) =
     [Read (S2 (Some ''MY_TOKEN''))
        \<lparr> read_stream = Some ''sessions/0001/term_output'',
          read_s2Basin = Some ''s2term-00001'',
          read_timestamp = Some (Fin 1700000000000), read_tailOffset = None \<rparr>]"
proof -
  from replaying_example_state obtain t where eq:
    "replaying_example =
       \<lparr> basin = Some ''s2term-00001'', sessionNumber = Some ''0001'', token = Some ''MY_TOKEN'',
         s2 = Some (S2 (Some ''MY_TOKEN'')), setupState = STREAMING, currentInput = [],
         keystrokes_stream = Some ''sessions/0001/term_input'',
         pty_stream = Some ''sessions/0001/term_output'',
         since = Some (Fin 1700000000000), speedup = Fin 5,
         lastRecordTimestamp = Some 1700000000000, isLiveMode = False,
         trace = t, loop = Iterating False \<rparr>"
    and t: "filter isAppend t =
         [Append (S2 (Some ''MY_TOKEN'')) (Some ''s2term-00001'') (Some ''sessions/0001/term_input'')
            \<lparr> append_body = [],
              append_headers = [(''type'', ''window''), (''rows'', ''40''), (''cols'', ''100'')],
              append_timestamp = 1700000005500 \<rparr>]"
      "filter isRead t =
         [Read (S2 (Some ''MY_TOKEN''))
            \<lparr> read_stream = Some ''sessions/0001/term_output'',
              read_s2Basin = Some ''s2term-00001'',
              read_timestamp = Some (Fin 1700000000000), read_tailOffset = None \<rparr>]"
      "filter isSleep t = []"
    by blast
  show "setupState replaying_example = STREAMING"
    "s2 replaying_example = Some (S2 (Some ''MY_TOKEN''))"
    "basin replaying_example = Some ''s2term-00001''"
    "keystrokes_stream replaying_example = Some ''sessions/0001/term_input''"
    "since replaying_example = Some (Fin 1700000000000)"
    "speedup replaying_example = Fin 5"
    "lastRecordTimestamp replaying_example = Some 1700000000000"
    "isLiveMode replaying_example = False"
    "loop replaying_example = Iterating False"
    "filter isSleep (trace replaying_example) = []"
    "filter isAppend (trace replaying_example) =
       [Append (S2 (Some ''MY_TOKEN'')) (Some ''s2term-00001'') (Some ''sessions/0001/term_input'')
          \<lparr> append_body = [],
            append_headers = [(''type'', ''window''), (''rows'', ''40''), (''cols'', ''100'')],
            append_timestamp = 1700000005500 \<rparr>]"
    "filter isRead (trace replaying_example) =
       [Read (S2 (Some ''MY_TOKEN''))
          \<lparr> read_stream = Some ''sessions/0001/term_output'',
            read_s2Basin = Some ''s2term-00001'',
            read_timestamp = Some (Fin 1700000000000), read_tailOffset = None \<rparr>]"
    by (simp_all add: eq t)
qed

lemma live_example_fields:
  "setupState live_example = STREAMING"
  "s2 live_example = Some (S2 (Some ''MY_TOKEN''))"
  "basin live_example = Some ''s2term-00001''"
  "keystrokes_stream live_example = Some ''sessions/0001/term_input''"
  "since live_example = None"
  "isLiveMode live_example = True"
  "loop live_example = Iterating False"
  "filter isRead (trace live_example) =
     [Read (S2 (Some ''MY_TOKEN''))
        \<lparr> read_stream = Some ''sessions/0001/term_output'',
          read_s2Basin = Some ''s2term-00001'',
          read_timestamp = None, read_tailOffset = Some 0 \<rparr>]"
proof -
  from live_example_state obtain t where eq:
    "live_example =
       \<lparr> basin = Some ''s2term-00001'', sessionNumber = Some ''0001'', token = Some ''MY_TOKEN'',
         s2 = Some (S2 (Some ''MY_TOKEN'')), setupState = STREAMING, currentInput = [],
         keystrokes_stream = Some ''sessions/0001/term_input'',
         pty_stream = Some ''sessions/0001/term_output'',
         since = None, speedup = Fin 1, lastRecordTimestamp = None, isLiveMode = True,
         trace = t, loop = Iterating False \<rparr>"
    and t: "filter isRead t =
         [Read (S2 (Some ''MY_TOKEN''))
            \<lparr> read_stream = Some ''sessions/0001/term_output'',
              read_s2Basin = Some ''s2term-00001'',
              read_timestamp = None, read_tailOffset = Some 0 \<rparr>]"
    by blast
  show "setupState live_example = STREAMING"
    "s2 live_example = Some (S2 (Some ''MY_TOKEN''))"
    "basin live_example = Some ''s2term-00001''"
    "keystrokes_stream live_example = Some ''sessions/0001/term_input''"
    "since live_example = None"
    "isLiveMode live_example = True"
    "loop live_example = Iterating False"
    "filter isRead (trace live_example) =
       [Read (S2 (Some ''MY_TOKEN''))
          \<lparr> read_stream = Some ''sessions/0001/term_output'',
            read_s2Basin = Some ''s2term-00001'',
            read_timestamp = None, read_tailOffset = Some 0 \<rparr>]"
    by (simp_all add: eq t)
qed

lemma token_typed_example_fields:
  "setupState token_typed_example = COLLECTING_TOKEN"
  "currentInput token_typed_example = ''MY_TOKEN''"
  "basin token_typed_example = Some ''s2term-00001''"
  "keystrokes_stream token_typed_example = Some ''sessions/0001/term_input''"
  "loop token_typed_example = NotIterating"
  "filter isAppend (trace token_typed_example) = []"
proof -
  from token_typed_example_state obtain t where eq:
    "token_typed_example =
       \<lparr> basin = Some ''s2term-00001'', sessionNumber = Some ''0001'', token = None,
         s2 = None, setupState = COLLECTING_TOKEN, currentInput = ''MY_TOKEN'',
         keystrokes_stream = Some ''sessions/0001/term_input'',
         pty_stream = Some ''sessions/0001/term_output'',
         since = None, speedup = Fin 1, lastRecordTimestamp = None, isLiveMode = False,
         trace = t, loop = NotIterating \<rparr>"
    and t: "filter isAppend t = []"
    by blast
  show "setupState token_typed_example = COLLECTING_TOKEN"
    "currentInput token_typed_example = ''MY_TOKEN''"
    "basin token_typed_example = Some ''s2term-00001''"
    "keystrokes_stream token_typed_example = Some ''sessions/0001/term_input''"
    "loop token_typed_example = NotIterating"
    "filter isAppend (trace token_typed_example) = []"
    by (simp_all add: eq t)
qed

lemma caught_up_example_fields:
  "isLiveMode caught_up_example"
  "setupState caught_up_example = STREAMING"
  "loop caught_up_example = Iterating False"
  "since caught_up_example = Some (Fin 1700000000000)"
  "lastRecordTimestamp caught_up_example = Some 1700000005000"
  "filter isAppend (trace caught_up_example) = filter isAppend (trace replaying_example)"
  "filter isSleep (trace caught_up_example) = []"
  by (simp_all add: caught_up_example_def replaying_example_fields applyS2Record_def
      processRecord_def writeAsync_def writelnAsync_def output_record_def)

lemma token_typed_example_state_fields:
  "since token_typed_example = None"
  "pty_stream token_typed_example = Some ''sessions/0001/term_output''"
  "basin token_typed_example = Some ''s2term-00001''"
  "keystrokes_stream token_typed_example = Some ''sessions/0001/term_input''"
  "filter (\<lambda>x. isAppend x \<or> isRead x) (trace token_typed_example) = []"
  by (simp_all add: token_typed_example_def example_defs)

subsection \<open>What each method appends and reads\<close>

lemma sendKeystroke_trace:
  "trace (sendKeystroke data e s) =
     trace s @
       (case s2 s of
          None \<Rightarrow> [ConsoleError [Lit ''Failed to send keystroke to S2:'', Err TypeError]]
        | Some client \<Rightarrow>
            Append client (basin s) (keystrokes_stream s) (keystrokeRecord data (now e)) #
              (case appendResult e of
                 None \<Rightarrow> []
               | Some err \<Rightarrow> [ConsoleError [Lit ''Failed to send keystroke to S2:'', Err err]]))"
  by (simp add: sendKeystroke_def keystrokeRecord_def Let_def split: option.split)

lemma sendWindowResize_trace:
  "trace (sendWindowResize cols rows e s) =
     trace s @
       (case s2 s of
          None \<Rightarrow> [ConsoleError [Lit ''Failed to send window resize to S2:'', Err TypeError]]
        | Some client \<Rightarrow>
            Append client (basin s) (keystrokes_stream s) (windowRecord cols rows (now e)) #
              (case appendResult e of
                 None \<Rightarrow> [ConsoleLog [Lit ''Sent window resize: '', Intg cols, Lit ''x'', Intg rows]]
               | Some err \<Rightarrow>
                   [ConsoleError [Lit ''Failed to send window resize to S2:'', Err err]]))"
  by (simp add: sendWindowResize_def windowRecord_def Let_def split: option.split)

lemma catchStreamingError_trace:
  "trace (catchStreamingError err s) =
     trace s @
       [ConsoleError [Lit ''S2 streaming error:'', Err err],
        TermWriteln [Lit (ESC # ''[31mStreaming error: ''), Err err, Lit (ESC # ''[0m'')]]"
  by (simp add: catchStreamingError_def writelnAsync_def Let_def)

lemma sendKeystroke_appends:
  "filter isAppend (trace (sendKeystroke data e s)) =
     filter isAppend (trace s) @
       (case s2 s of
          None \<Rightarrow> []
        | Some client \<Rightarrow>
            [Append client (basin s) (keystrokes_stream s) (keystrokeRecord data (now e))])"
  by (simp add: sendKeystroke_trace split: option.split)

lemma sendWindowResize_appends:
  "filter isAppend (trace (sendWindowResize cols rows e s)) =
     filter isAppend (trace s) @
       (case s2 s of
          None \<Rightarrow> []
        | Some client \<Rightarrow>
            [Append client (basin s) (keystrokes_stream s) (windowRecord cols rows (now e))])"
  by (simp add: sendWindowResize_trace split: option.split)

lemma sends_read_nothing [simp]:
  "filter isRead (trace (sendKeystroke data e s)) = filter isRead (trace s)"
  "filter isRead (trace (sendWindowResize cols rows e s)) = filter isRead (trace s)"
  "filter isRead (trace (catchStreamingError err s)) = filter isRead (trace s)"
  "filter isAppend (trace (catchStreamingError err s)) = filter isAppend (trace s)"
  "filter isSleep (trace (sendKeystroke data e s)) = filter isSleep (trace s)"
  "filter isSleep (trace (sendWindowResize cols rows e s)) = filter isSleep (trace s)"
  "filter isSleep (trace (catchStreamingError err s)) = filter isSleep (trace s)"
  by (simp_all add: sendKeystroke_trace sendWindowResize_trace catchStreamingError_trace
      split: option.split)

lemma processRecord_quiet [simp]:
  "filter isAppend (trace (processRecord r dateNow s)) = filter isAppend (trace s)"
  "filter isRead (trace (processRecord r dateNow s)) = filter isRead (trace s)"
  by (simp_all add: processRecord_def writeAsync_def writelnAsync_def sleep_def Let_def
      split: option.split)

lemma processRecords_quiet [simp]:
  "filter isAppend (trace (fold (\<lambda>(r, dateNow). processRecord r dateNow) records s))
     = filter isAppend (trace s)"
  "filter isRead (trace (fold (\<lambda>(r, dateNow). processRecord r dateNow) records s))
     = filter isRead (trace s)"
  by (induction records arbitrary: s; simp add: split_def)+

lemma applyS2Record_quiet [simp]:
  "filter isAppend (trace (applyS2Record event s)) = filter isAppend (trace s)"
  "filter isRead (trace (applyS2Record event s)) = filter isRead (trace s)"
  by (cases event; simp add: applyS2Record_def)+

lemma startS2Streaming_appends [simp]:
  "filter isAppend (trace (startS2Streaming e s)) = filter isAppend (trace s)"
  by (simp add: startS2Streaming_def catchStreamingError_trace writelnAsync_def Let_def
      split: option.split sum.split)

lemma testS2Connection_appends:
  "filter isAppend (trace (testS2Connection e s)) =
     filter isAppend (trace s) @
       (case checkTailResult e of
          Inl err \<Rightarrow> []
        | Inr tail \<Rightarrow>
            [Append (S2 (token s)) (basin s) (keystrokes_stream s)
               (windowRecord (termCols e) (termRows e) (now e))])"
  by (simp add: testS2Connection_def sendWindowResize_appends writelnAsync_def writeAsync_def
      Let_def split: sum.split)

lemma testS2Connection_setupState:
  "setupState (testS2Connection e s) =
     (case checkTailResult e of Inl err \<Rightarrow> COLLECTING_TOKEN | Inr tail \<Rightarrow> STREAMING)"
  by (simp add: testS2Connection_def writelnAsync_def writeAsync_def Let_def split: sum.split)

lemma testS2Connection_s2 [simp]: "s2 (testS2Connection e s) = Some (S2 (token s))"
  by (simp add: testS2Connection_def writelnAsync_def writeAsync_def Let_def split: sum.split)

lemma processSetupInput_appends:
  "filter isAppend (trace (processSetupInput input e s)) =
     filter isAppend (trace s) @
       (if setupState s = COLLECTING_TOKEN then
          case checkTailResult e of
            Inl err \<Rightarrow> []
          | Inr tail \<Rightarrow>
              [Append (S2 (Some input)) (basin s) (keystrokes_stream s)
                 (windowRecord (termCols e) (termRows e) (now e))]
        else [])"
  by (simp add: processSetupInput_def testS2Connection_appends writelnAsync_def writeAsync_def
      Let_def split: SetupState.split sum.split)

lemma handleSetupInput_appends:
  "filter isAppend (trace (handleSetupInput data e s)) =
     filter isAppend (trace s) @
       (if data = [CHR 0x0D] \<and> setupState s = COLLECTING_TOKEN then
          case checkTailResult e of
            Inl err \<Rightarrow> []
          | Inr tail \<Rightarrow>
              [Append (S2 (Some (trim (currentInput s)))) (basin s) (keystrokes_stream s)
                 (windowRecord (termCols e) (termRows e) (now e))]
        else [])"
  by (simp add: handleSetupInput_def processSetupInput_appends writelnAsync_def writeAsync_def
      Let_def split: loop.split sum.split)

lemma processSetupInput_setupState:
  "setupState (processSetupInput input e s) =
     (case setupState s of
        COLLECTING_BASIN \<Rightarrow> COLLECTING_SESSION
      | COLLECTING_SESSION \<Rightarrow> COLLECTING_TOKEN
      | COLLECTING_TOKEN \<Rightarrow>
          (case checkTailResult e of Inl err \<Rightarrow> COLLECTING_TOKEN | Inr tail \<Rightarrow> STREAMING)
      | other \<Rightarrow> other)"
  by (simp add: processSetupInput_def testS2Connection_setupState writelnAsync_def writeAsync_def
      Let_def split: SetupState.split)

lemma handleSetupInput_setupState:
  "setupState (handleSetupInput data e s) =
     (if data = [CHR 0x0D] then setupState (processSetupInput (trim (currentInput s)) e s)
      else setupState s)"
  by (simp add: handleSetupInput_def processSetupInput_setupState writelnAsync_def writeAsync_def
      Let_def split: loop.split SetupState.split sum.split)

subsection \<open>Well-formed states\<close>

lemma wellFormed_emit [simp]: "wellFormed (emit x s) = wellFormed s"
  by (simp add: wellFormed_def)

lemma startS2Streaming_loop:
  "loop (startS2Streaming e s) = loop s \<or> loop (startS2Streaming e s) = Iterating False"
  by (simp add: startS2Streaming_def writelnAsync_def Let_def split: option.split sum.split)

lemma startS2Streaming_mode: "isLiveMode (startS2Streaming e s) \<or> truthy_opt (since s)"
  by (simp add: startS2Streaming_def writelnAsync_def Let_def split: option.split sum.split)

lemma startS2Streaming_wellFormed:
  assumes "setupState s = STREAMING" and "s2 s \<noteq> None"
  shows "wellFormed (startS2Streaming e s)"
  using assms startS2Streaming_mode [of e s] by (simp add: wellFormed_def)

lemma testS2Connection_wellFormed:
  assumes "loop s = NotIterating"
  shows "wellFormed (testS2Connection e s)"
proof (cases "checkTailResult e")
  case (Inl err)
  then show ?thesis
    using assms
    by (simp add: testS2Connection_def wellFormed_def writelnAsync_def writeAsync_def Let_def)
next
  case (Inr tail)
  then show ?thesis
    by (cases tail)
      (simp add: testS2Connection_def writelnAsync_def Let_def startS2Streaming_wellFormed)
qed

lemma processSetupInput_wellFormed:
  assumes "wellFormed s" and "setupState s \<noteq> STREAMING"
  shows "wellFormed (processSetupInput input e s)"
proof -
  have idle: "loop s = NotIterating"
    using assms by (auto simp: wellFormed_def)
  show ?thesis
  proof (cases "setupState s")
    case COLLECTING_TOKEN
    then show ?thesis
      by (simp add: processSetupInput_def writelnAsync_def Let_def idle
          testS2Connection_wellFormed)
  qed (use assms idle in \<open>simp_all add: processSetupInput_def wellFormed_def writelnAsync_def
        writeAsync_def Let_def\<close>)
qed

lemma handleSetupInput_wellFormed:
  assumes "wellFormed s" and "setupState s \<noteq> STREAMING"
  shows "wellFormed (handleSetupInput data e s)"
proof (cases "data = [CHR 0x0D]")
  case True
  have "wellFormed (processSetupInput (trim (currentInput s)) e (writelnAsync [Lit []] s))"
    using assms by (intro processSetupInput_wellFormed) (simp_all add: writelnAsync_def)
  then show ?thesis
    using True
    by (auto simp: handleSetupInput_def wellFormed_def writelnAsync_def Let_def
        split: loop.split)
next
  case False
  then show ?thesis
    using assms by (simp add: handleSetupInput_def wellFormed_def writeAsync_def Let_def)
qed

lemma handle_pair_wellFormed:
  assumes "wellFormed s"
  shows "wellFormed (handle (x, e) s)"
proof (cases x)
  case (Data data)
  then show ?thesis
    using assms
    by (cases "setupState s = STREAMING")
      (simp_all add: onData_def handleSetupInput_wellFormed, simp add: wellFormed_def)
next
  case (Resize cols rows)
  then show ?thesis
    using assms by (simp add: wellFormed_def)
next
  case (StreamEvent event)
  then show ?thesis
    using assms applyS2Record_live [of s event]
    by (auto simp: wellFormed_def split: loop.split)
next
  case (StreamError err)
  then show ?thesis
    using assms by (auto simp: wellFormed_def leaveLoop_def split: loop.split bool.split)
next
  case StreamEnd
  then show ?thesis
    using assms by (auto simp: wellFormed_def leaveLoop_def split: loop.split bool.split)
qed

lemma handle_wellFormed: "wellFormed s \<Longrightarrow> wellFormed (handle ev s)"
  by (cases ev) (simp add: handle_pair_wellFormed)

lemma fold_handle_wellFormed: "wellFormed s \<Longrightarrow> wellFormed (fold handle events s)"
  by (induction events arbitrary: s) (simp_all add: handle_wellFormed)

lemma idle_wellFormed:
  "loop s = NotIterating \<Longrightarrow> setupState s \<noteq> STREAMING \<Longrightarrow> wellFormed s"
  by (simp add: wellFormed_def)

lemma initialize_wellFormed:
  assumes "loop s = NotIterating" and "setupState s \<noteq> STREAMING"
  shows "wellFormed (initialize container js urlParams e s)"
  using assms
  by (auto simp: initialize_def startSetupFlow_def writelnAsync_def writeAsync_def Let_def
      intro!: idle_wellFormed testS2Connection_wellFormed)

lemma run_wellFormed: "wellFormed (run container js urlParams e events)"
  by (simp add: run_def fold_handle_wellFormed initialize_wellFormed constructor_def)

lemma run_streaming_client:
  "setupState (run container js urlParams e events) = STREAMING \<Longrightarrow>
   s2 (run container js urlParams e events) \<noteq> None"
  using run_wellFormed [of container js urlParams e events] by (simp add: wellFormed_def)

lemma run_iterating:
  "loop (run container js urlParams e events) = Iterating w \<Longrightarrow>
   setupState (run container js urlParams e events) = STREAMING \<and>
   (isLiveMode (run container js urlParams e events) \<or>
    truthy_opt (since (run container js urlParams e events)))"
  using run_wellFormed [of container js urlParams e events] by (simp add: wellFormed_def)

subsection \<open>Decimal strings and the shapes of the appended records\<close>

lemma digit_char: "k < 10 \<Longrightarrow> of_char (''0123456789'' ! k) = (48 + k :: nat)"
proof -
  assume "k < 10"
  then have "k \<in> {0, 1, 2, 3, 4, 5, 6, 7, 8, 9}" by auto
  then show ?thesis by auto
qed

lemma digit_char_mem: "k < 10 \<Longrightarrow> ''0123456789'' ! k \<in> set ''0123456789''"
  by (rule nth_mem) simp

lemma digits_nonempty: "digits n \<noteq> []"
  by (subst digits.simps) simp

lemma digits_all: "list_all (\<lambda>c. c \<in> set ''0123456789'') (digits n)"
proof (induction n rule: digits.induct)
  case (1 n)
  show ?case
  proof (cases "n < 10")
    case True
    then show ?thesis
      using digit_char_mem [of n] by (subst digits.simps) simp
  next
    case False
    then show ?thesis
      using 1 digit_char_mem [of "n mod 10"] by (subst digits.simps) simp
  qed
qed

lemma isDecimal_toString: "isDecimal (toString i)"
proof (cases "i < 0")
  case True
  then show ?thesis
    using digits_all [of "nat (- i)"]
    by (simp add: isDecimal_def toString_def digits_nonempty)
next
  case False
  obtain c cs where ds: "digits (nat i) = c # cs"
    using digits_nonempty [of "nat i"] by (cases "digits (nat i)") auto
  have "list_all (\<lambda>c. c \<in> set ''0123456789'') (c # cs)"
    using digits_all [of "nat i"] by (simp add: ds)
  then show ?thesis
    using False by (auto simp: isDecimal_def toString_def ds)
qed

lemma decimalValue_snoc:
  "decimalValue (ds @ [c]) = 10 * decimalValue ds + (of_char c - 48)"
  by (simp add: decimalValue_def)

lemma decimalValue_digits: "decimalValue (digits n) = n"
proof (induction n rule: digits.induct)
  case (1 n)
  show ?case
  proof (cases "n < 10")
    case True
    then show ?thesis
      by (subst digits.simps) (simp add: decimalValue_def digit_char)
  next
    case False
    then have "decimalValue (digits (n div 10)) = n div 10"
      using 1 by simp
    then show ?thesis
      using False by (subst digits.simps) (simp add: decimalValue_snoc digit_char)
  qed
qed

lemma decimalValue_toString: "0 \<le> i \<Longrightarrow> decimalValue (toString i) = nat i"
  by (simp add: toString_def decimalValue_digits)

lemma record_shapes [simp]:
  "keystrokeShape (keystrokeRecord data t)"
  "windowShape (windowRecord cols rows t)"
  by (simp_all add: keystrokeShape_def keystrokeRecord_def windowShape_def windowRecord_def
      isDecimal_toString)

lemma wireShape_appends: "list_all wireShape t = list_all wireShape (filter isAppend t)"
proof (induction t)
  case Nil
  show ?case by simp
next
  case (Cons x t)
  then show ?case by (cases x) simp_all
qed

lemma handle_pair_appends:
  "filter isAppend (trace (handle (x, e) s)) =
     filter isAppend (trace s) @
       (case x of
          Data data \<Rightarrow>
            if setupState s = STREAMING then
              (case s2 s of
                 None \<Rightarrow> []
               | Some client \<Rightarrow>
                   [Append client (basin s) (keystrokes_stream s) (keystrokeRecord data (now e))])
            else if data = [CHR 0x0D] \<and> setupState s = COLLECTING_TOKEN then
              (case checkTailResult e of
                 Inl err \<Rightarrow> []
               | Inr tail \<Rightarrow>
                   [Append (S2 (Some (trim (currentInput s)))) (basin s) (keystrokes_stream s)
                      (windowRecord (termCols e) (termRows e) (now e))])
            else []
        | Resize cols rows \<Rightarrow>
            if setupState s = STREAMING then
              (case s2 s of
                 None \<Rightarrow> []
               | Some client \<Rightarrow>
                   [Append client (basin s) (keystrokes_stream s) (windowRecord cols rows (now e))])
            else []
        | _ \<Rightarrow> [])"
  by (cases x)
    (simp_all add: onData_def onResize_def sendKeystroke_appends sendWindowResize_appends
      handleSetupInput_appends Let_def split: loop.split option.split)

lemma handle_wireShape:
  assumes "list_all wireShape (trace s)"
  shows "list_all wireShape (trace (handle ev s))"
proof -
  obtain x e where ev: "ev = (x, e)" by (cases ev)
  have old: "list_all wireShape (filter isAppend (trace s))"
    using assms wireShape_appends [of "trace s"] by simp
  have "list_all wireShape (filter isAppend (trace (handle (x, e) s)))"
  proof (cases x)
    case (Data data)
    then show ?thesis
      using old handle_pair_appends [of x e s]
      by (cases "s2 s"; cases "checkTailResult e"; simp)
  next
    case (Resize cols rows)
    then show ?thesis
      using old handle_pair_appends [of x e s] by (cases "s2 s"; simp)
  qed (use old handle_pair_appends [of x e s] in simp_all)
  then show ?thesis
    using wireShape_appends [of "trace (handle (x, e) s)"] by (simp add: ev)
qed

lemma fold_handle_wireShape:
  "list_all wireShape (trace s) \<Longrightarrow> list_all wireShape (trace (fold handle events s))"
  by (induction events arbitrary: s) (simp_all add: handle_wireShape)

lemma startSetupFlow_appends:
  "filter isAppend (trace (startSetupFlow js urlParams e s)) =
     filter isAppend (trace s) @
       (if truthy_string (basinParam urlParams) \<and> truthy_string (sessionParam urlParams)
             \<and> truthy_string (tokenParam urlParams)
             \<and> \<not> (truthy_opt (sinceOfParam js (sinceParam urlParams))
                    \<and> \<not> validTime (sinceOfParam js (sinceParam urlParams)))
        then
          case checkTailResult e of
            Inl err \<Rightarrow> []
          | Inr tail \<Rightarrow>
              [Append (S2 (tokenParam urlParams)) (basinParam urlParams)
                 (Some (''sessions/'' @ interpolate (sessionParam urlParams) @ ''/term_input''))
                 (windowRecord (termCols e) (termRows e) (now e))]
        else [])"
  by (cases "checkTailResult e")
    (simp_all add: startSetupFlow_def testS2Connection_appends writelnAsync_def writeAsync_def
      Let_def)

lemma startSetupFlow_setupState:
  "setupState (startSetupFlow js urlParams e s) =
     (if truthy_string (basinParam urlParams) \<and> truthy_string (sessionParam urlParams)
           \<and> truthy_string (tokenParam urlParams) then
        if truthy_opt (sinceOfParam js (sinceParam urlParams))
             \<and> \<not> validTime (sinceOfParam js (sinceParam urlParams))
        then setupState s
        else (case checkTailResult e of Inl err \<Rightarrow> COLLECTING_TOKEN | Inr tail \<Rightarrow> STREAMING)
      else COLLECTING_BASIN)"
  by (cases "checkTailResult e")
    (simp_all add: startSetupFlow_def testS2Connection_setupState writelnAsync_def
      writeAsync_def Let_def)

lemma initialize_appends:
  "filter isAppend (trace (initialize container js urlParams e s)) =
     filter isAppend (trace s) @
       (if container \<and> truthy_string (basinParam urlParams)
             \<and> truthy_string (sessionParam urlParams) \<and> truthy_string (tokenParam urlParams)
             \<and> \<not> (truthy_opt (sinceOfParam js (sinceParam urlParams))
                    \<and> \<not> validTime (sinceOfParam js (sinceParam urlParams)))
        then
          case checkTailResult e of
            Inl err \<Rightarrow> []
          | Inr tail \<Rightarrow>
              [Append (S2 (tokenParam urlParams)) (basinParam urlParams)
                 (Some (''sessions/'' @ interpolate (sessionParam urlParams) @ ''/term_input''))
                 (windowRecord (termCols e) (termRows e) (now e))]
        else [])"
  by (auto simp: initialize_def startSetupFlow_appends)

lemma initialize_setupState:
  "setupState (initialize container js urlParams e s) =
     (if container then setupState (startSetupFlow js urlParams e s) else setupState s)"
  by (simp add: initialize_def)

lemma run_wireShape: "list_all wireShape (trace (run container js urlParams e events))"
proof -
  have "list_all wireShape
          (filter isAppend (trace (initialize container js urlParams e constructor)))"
    by (cases "checkTailResult e"; simp add: initialize_appends constructor_def)
  then have "list_all wireShape (trace (initialize container js urlParams e constructor))"
    using wireShape_appends [of "trace (initialize container js urlParams e constructor)"]
    by simp
  then show ?thesis
    by (simp add: run_def fold_handle_wireShape)
qed

subsection \<open>Before and after the terminal streams\<close>

lemma handle_pair_setupState:
  "setupState (handle (x, e) s) =
     (case x of
        Data data \<Rightarrow>
          if setupState s = STREAMING then STREAMING
          else if data = [CHR 0x0D] then
            (case setupState s of
               COLLECTING_BASIN \<Rightarrow> COLLECTING_SESSION
             | COLLECTING_SESSION \<Rightarrow> COLLECTING_TOKEN
             | COLLECTING_TOKEN \<Rightarrow>
                 (case checkTailResult e of Inl err \<Rightarrow> COLLECTING_TOKEN | Inr tail \<Rightarrow> STREAMING)
             | other \<Rightarrow> other)
          else setupState s
      | _ \<Rightarrow> setupState s)"
  by (cases x)
    (simp_all add: onData_def handleSetupInput_setupState processSetupInput_setupState
      writelnAsync_def split: loop.split)

lemma handle_pair_quiet_setup:
  assumes "setupState (handle (x, e) s) \<noteq> STREAMING"
  shows "filter isAppend (trace (handle (x, e) s)) = filter isAppend (trace s)"
proof (cases x)
  case (Data data)
  then show ?thesis
    using assms handle_pair_setupState [of x e s] handle_pair_appends [of x e s]
    by (cases "checkTailResult e"; cases "setupState s"; simp split: if_splits)
next
  case (Resize cols rows)
  then show ?thesis
    using assms handle_pair_setupState [of x e s] handle_pair_appends [of x e s]
    by simp
qed (use handle_pair_appends [of x e s] in simp_all)

lemma run_snoc:
  "run container js urlParams e (events @ [ev]) = handle ev (run container js urlParams e events)"
  by (simp add: run_def)

lemma run_quiet_setup:
  "setupState (run container js urlParams e events) \<noteq> STREAMING \<Longrightarrow>
   filter isAppend (trace (run container js urlParams e events)) = []"
proof (induction events rule: rev_induct)
  case Nil
  then show ?case
    by (cases "checkTailResult e")
      (auto simp: run_def initialize_appends initialize_setupState startSetupFlow_setupState
        constructor_def split: if_splits)
next
  case (snoc ev events)
  obtain x e' where ev: "ev = (x, e')" by (cases ev)
  have later: "setupState (handle (x, e') (run container js urlParams e events)) \<noteq> STREAMING"
    using snoc.prems by (simp add: run_snoc ev)
  then have "setupState (run container js urlParams e events) \<noteq> STREAMING"
    using handle_streaming [of "run container js urlParams e events" "(x, e')"] by auto
  then have "filter isAppend (trace (run container js urlParams e events)) = []"
    by (rule snoc.IH)
  then show ?case
    using handle_pair_quiet_setup [OF later] by (simp add: run_snoc ev)
qed

lemma handle_pair_streaming_reads:
  "setupState s = STREAMING \<Longrightarrow>
   filter isRead (trace (handle (x, e) s)) = filter isRead (trace s)"
  by (cases x) (simp_all add: onData_def onResize_def Let_def split: loop.split)

lemma fold_handle_streaming_reads:
  "setupState s = STREAMING \<Longrightarrow>
   filter isRead (trace (fold handle events s)) = filter isRead (trace s)"
proof (induction events arbitrary: s)
  case Nil
  show ?case by simp
next
  case (Cons ev events)
  obtain x e where ev: "ev = (x, e)" by (cases ev)
  have "setupState (handle ev s) = STREAMING"
    using Cons.prems by (rule handle_streaming)
  then have "filter isRead (trace (fold handle events (handle ev s)))
      = filter isRead (trace (handle ev s))"
    by (rule Cons.IH)
  then show ?case
    using Cons.prems by (simp add: ev handle_pair_streaming_reads)
qed

lemma startS2Streaming_calls:
  "filter (\<lambda>x. isAppend x \<or> isRead x) (trace (startS2Streaming e s)) =
     filter (\<lambda>x. isAppend x \<or> isRead x) (trace s) @
       (if truthy_opt (since s) \<and> \<not> validTime (since s) then []
        else
          case s2 s of
            None \<Rightarrow> []
          | Some client \<Rightarrow>
              [Read client
                 \<lparr> read_stream = pty_stream s, read_s2Basin = basin s,
                   read_timestamp = (if truthy_opt (since s) then since s else None),
                   read_tailOffset = (if truthy_opt (since s) then None else Some 0) \<rparr>])"
  by (cases "s2 s"; cases "readResult e")
    (simp_all add: startS2Streaming_def catchStreamingError_trace writelnAsync_def Let_def)

lemma testS2Connection_calls:
  assumes "checkTailResult e = Inr tail"
  shows "filter (\<lambda>x. isAppend x \<or> isRead x) (trace (testS2Connection e s)) =
     filter (\<lambda>x. isAppend x \<or> isRead x) (trace s) @
       Append (S2 (token s)) (basin s) (keystrokes_stream s)
         (windowRecord (termCols e) (termRows e) (now e)) #
       (if truthy_opt (since s) \<and> \<not> validTime (since s) then []
        else
          [Read (S2 (token s))
             \<lparr> read_stream = pty_stream s, read_s2Basin = basin s,
               read_timestamp = (if truthy_opt (since s) then since s else None),
               read_tailOffset = (if truthy_opt (since s) then None else Some 0) \<rparr>])"
  using assms
  by (cases tail; cases "appendResult e")
    (simp_all add: testS2Connection_def startS2Streaming_calls sendWindowResize_trace
      writelnAsync_def Let_def)

subsection \<open>A session without a start point\<close>

lemma unpaced_simps [simp]:
  "unpaced (TermWrite t)" "unpaced (ConsoleLog t)" "unpaced (ConsoleError t)"
  "unpaced (CheckTail client b stream)" "unpaced (Append client b stream r)"
  "unpaced (Uncaught err)" "\<not> unpaced (Sleep ms)"
  "unpaced (Read client params) =
     (read_tailOffset params = Some 0 \<and> read_timestamp params = None)"
  "unpaced (TermWriteln t) = (t \<noteq> [Lit (ESC # ''[32m[Live mode activated]'' @ ESC # ''[0m'')])"
  by (simp_all add: unpaced_def liveModeActivated_def)

lemma tailing_emit [simp]:
  "tailing (emit x s) = (tailing s \<and> unpaced x \<and> (isRead x \<longrightarrow> isLiveMode s))"
  by (auto simp: tailing_def)

lemma tailing_update [simp]:
  "tailing (s\<lparr>basin := a\<rparr>) = tailing s"
  "tailing (s\<lparr>sessionNumber := a\<rparr>) = tailing s"
  "tailing (s\<lparr>token := a\<rparr>) = tailing s"
  "tailing (s\<lparr>s2 := c\<rparr>) = tailing s"
  "tailing (s\<lparr>setupState := st\<rparr>) = tailing s"
  "tailing (s\<lparr>currentInput := i\<rparr>) = tailing s"
  "tailing (s\<lparr>keystrokes_stream := a\<rparr>) = tailing s"
  "tailing (s\<lparr>pty_stream := a\<rparr>) = tailing s"
  "tailing (s\<lparr>speedup := q\<rparr>) = tailing s"
  "tailing (s\<lparr>lastRecordTimestamp := l\<rparr>) = tailing s"
  "tailing (s\<lparr>loop := w\<rparr>) = tailing s"
  by (simp_all add: tailing_def)

lemma tailing_sends [simp]:
  "tailing (sendKeystroke data e s) = tailing s"
  "tailing (sendWindowResize cols rows e s) = tailing s"
  "tailing (catchStreamingError err s) = tailing s"
  by (auto simp: tailing_def sendKeystroke_trace sendWindowResize_trace
      catchStreamingError_trace ESC_def split: option.split)

lemma processRecord_tailing: "tailing s \<Longrightarrow> tailing (processRecord r dateNow s)"
  by (auto simp: tailing_def processRecord_def writeAsync_def Let_def split: option.split)

lemma processRecords_tailing:
  "tailing s \<Longrightarrow> tailing (fold (\<lambda>(r, dateNow). processRecord r dateNow) records s)"
  by (induction records arbitrary: s) (auto simp: processRecord_tailing)

lemma applyS2Record_tailing: "tailing s \<Longrightarrow> tailing (applyS2Record event s)"
  by (cases event) (auto simp: applyS2Record_def processRecords_tailing)

lemma startS2Streaming_tailing: "tailing s \<Longrightarrow> tailing (startS2Streaming e s)"
  by (auto simp: tailing_def startS2Streaming_def catchStreamingError_trace writelnAsync_def
      Let_def ESC_def split: option.split sum.split)

lemma testS2Connection_tailing:
  assumes "tailing s"
  shows "tailing (testS2Connection e s)"
proof (cases "checkTailResult e")
  case (Inl err)
  then show ?thesis
    using assms
    by (auto simp: testS2Connection_def writelnAsync_def writeAsync_def Let_def ESC_def)
next
  case (Inr tail)
  then show ?thesis
    using assms
    by (cases tail)
      (auto simp: testS2Connection_def writelnAsync_def Let_def ESC_def
        intro!: startS2Streaming_tailing)
qed

lemma processSetupInput_tailing: "tailing s \<Longrightarrow> tailing (processSetupInput input e s)"
  by (cases "setupState s")
    (auto simp: processSetupInput_def writelnAsync_def writeAsync_def Let_def ESC_def
      intro!: testS2Connection_tailing)

lemma handleSetupInput_tailing:
  assumes "tailing s"
  shows "tailing (handleSetupInput data e s)"
proof -
  have "tailing (processSetupInput (trim (currentInput s)) e (writelnAsync [Lit []] s))"
    using assms by (intro processSetupInput_tailing) (auto simp: writelnAsync_def)
  then show ?thesis
    using assms
    by (auto simp: handleSetupInput_def writelnAsync_def writeAsync_def Let_def
        split: loop.split)
qed

lemma handle_pair_tailing:
  assumes "tailing s"
  shows "tailing (handle (x, e) s)"
proof (cases x)
  case (Data data)
  then show ?thesis
    using assms by (simp add: onData_def handleSetupInput_tailing)
next
  case (Resize cols rows)
  then show ?thesis
    using assms by (auto simp: onResize_def Let_def)
next
  case (StreamEvent event)
  then show ?thesis
    using assms by (simp add: applyS2Record_tailing split: loop.split)
next
  case (StreamError err)
  then show ?thesis
    using assms by (simp add: leaveLoop_def split: loop.split bool.split)
next
  case StreamEnd
  then show ?thesis
    using assms by (simp add: leaveLoop_def split: loop.split bool.split)
qed

lemma fold_handle_tailing: "tailing s \<Longrightarrow> tailing (fold handle events s)"
proof (induction events arbitrary: s)
  case Nil
  then show ?case by simp
next
  case (Cons ev events)
  then show ?case by (cases ev) (simp add: handle_pair_tailing)
qed

lemma startSetupFlow_tailing:
  assumes "tailing s" and "\<not> truthy_opt (sinceOfParam js (sinceParam urlParams))"
  shows "tailing (startSetupFlow js urlParams e s)"
proof -
  have since: "tailing (t\<lparr>since := sinceOfParam js (sinceParam urlParams)\<rparr>) =
      (list_all unpaced (trace t) \<and> (filter isRead (trace t) \<noteq> [] \<longrightarrow> isLiveMode t))" for t
    using assms(2) by (simp add: tailing_def)
  show ?thesis
    using assms
    by (auto simp: startSetupFlow_def writelnAsync_def writeAsync_def Let_def since
        tailing_def [of s] intro!: testS2Connection_tailing)
qed

lemma run_tailing:
  assumes "\<not> truthy_opt (sinceOfParam js (sinceParam urlParams))"
  shows "tailing (run container js urlParams e events)"
proof -
  have "tailing constructor"
    by (simp add: tailing_def constructor_def)
  then have "tailing (initialize container js urlParams e constructor)"
    using assms by (simp add: initialize_def startSetupFlow_tailing)
  then show ?thesis
    by (simp add: run_def fold_handle_tailing)
qed

lemma unpaced_trace:
  "list_all unpaced t \<Longrightarrow>
   list_all fromTail t \<and> filter isSleep t = [] \<and> liveModeActivated \<notin> set t"
  by (induction t) (auto simp: unpaced_def)

lemma falsy_since:
  assumes "param = None \<or> param = Some []
           \<or> parseInt js (interpolate param) = Fin 0 \<or> parseInt js (interpolate param) = NaN"
  shows "\<not> truthy_opt (sinceOfParam js param)"
  using assms by (cases param) (auto simp: sinceOfParam_def)

subsection \<open>The one read of a session without a start point\<close>

lemma startS2Streaming_reads:
  "filter isRead (trace (startS2Streaming e s)) =
     filter isRead (trace s) @
       (if truthy_opt (since s) \<and> \<not> validTime (since s) then []
        else
          case s2 s of
            None \<Rightarrow> []
          | Some client \<Rightarrow>
              [Read client
                 \<lparr> read_stream = pty_stream s, read_s2Basin = basin s,
                   read_timestamp = (if truthy_opt (since s) then since s else None),
                   read_tailOffset = (if truthy_opt (since s) then None else Some 0) \<rparr>])"
  by (cases "s2 s"; cases "readResult e")
    (simp_all add: startS2Streaming_def catchStreamingError_trace writelnAsync_def Let_def)

lemma testS2Connection_reads:
  "filter isRead (trace (testS2Connection e s)) =
     filter isRead (trace s) @
       (case checkTailResult e of
          Inl err \<Rightarrow> []
        | Inr tail \<Rightarrow>
            if truthy_opt (since s) \<and> \<not> validTime (since s) then []
            else
              [Read (S2 (token s))
                 \<lparr> read_stream = pty_stream s, read_s2Basin = basin s,
                   read_timestamp = (if truthy_opt (since s) then since s else None),
                   read_tailOffset = (if truthy_opt (since s) then None else Some 0) \<rparr>])"
proof (cases "checkTailResult e")
  case (Inl err)
  then show ?thesis
    by (simp add: testS2Connection_def writelnAsync_def writeAsync_def Let_def)
next
  case (Inr tail)
  then show ?thesis
    by (cases tail)
      (simp add: testS2Connection_def startS2Streaming_reads writelnAsync_def Let_def)
qed

lemma testS2Connection_tailReader:
  assumes "\<not> truthy_opt (since s)" and "filter isRead (trace s) = []"
  shows "tailReader (testS2Connection e s)"
  using assms
  by (cases "checkTailResult e")
    (simp_all add: tailReader_def tailRead_def testS2Connection_reads
      testS2Connection_setupState)

lemma processSetupInput_tailReader:
  assumes "tailReader s" and "setupState s \<noteq> STREAMING"
  shows "tailReader (processSetupInput input e s)"
proof (cases "setupState s = COLLECTING_TOKEN")
  case True
  have "tailReader (testS2Connection e
          (writelnAsync [Lit ''Testing S2 connection...'']
             (s\<lparr>token := Some input, setupState := TESTING_CONNECTION\<rparr>)))"
    using assms by (intro testS2Connection_tailReader) (simp_all add: tailReader_def writelnAsync_def)
  then show ?thesis
    using True by (simp add: processSetupInput_def Let_def)
next
  case False
  then show ?thesis
    using assms
    by (cases "setupState s")
      (simp_all add: processSetupInput_def tailReader_def writelnAsync_def writeAsync_def Let_def)
qed

lemma tailReader_update [simp]:
  "tailReader (s\<lparr>currentInput := i\<rparr>) = tailReader s"
  "tailReader (s\<lparr>loop := w\<rparr>) = tailReader s"
  "tailReader (s\<lparr>lastRecordTimestamp := l\<rparr>) = tailReader s"
  "tailReader (s\<lparr>isLiveMode := m\<rparr>) = tailReader s"
  "tailReader (s\<lparr>speedup := q\<rparr>) = tailReader s"
  by (simp_all add: tailReader_def tailRead_def)

lemma tailReader_emit:
  "\<not> isRead x \<Longrightarrow> tailReader (emit x s) = tailReader s"
  by (simp add: tailReader_def tailRead_def)

lemma handleSetupInput_tailReader:
  assumes "tailReader s" and "setupState s \<noteq> STREAMING"
  shows "tailReader (handleSetupInput data e s)"
proof -
  have "tailReader (processSetupInput (trim (currentInput s)) e (writelnAsync [Lit []] s))"
    using assms
    by (intro processSetupInput_tailReader) (simp_all add: writelnAsync_def tailReader_emit)
  then show ?thesis
    using assms
    by (auto simp: handleSetupInput_def writelnAsync_def writeAsync_def tailReader_emit Let_def
        split: loop.split)
qed

lemma streaming_tailReader:
  assumes "tailReader s"
    and "since t = since s" and "setupState t = setupState s" and "token t = token s"
    and "pty_stream t = pty_stream s" and "basin t = basin s"
    and "filter isRead (trace t) = filter isRead (trace s)"
  shows "tailReader t"
  using assms by (simp add: tailReader_def tailRead_def)

lemma handle_pair_tailReader:
  assumes "tailReader s"
  shows "tailReader (handle (x, e) s)"
proof (cases "setupState s = STREAMING")
  case True
  have "filter isRead (trace (handle (x, e) s)) = filter isRead (trace s)"
    using True by (rule handle_pair_streaming_reads)
  moreover have "setupState (handle (x, e) s) = setupState s"
    using True by (simp add: handle_pair_streaming)
  moreover have "token (handle (x, e) s) = token s" "pty_stream (handle (x, e) s) = pty_stream s"
    "basin (handle (x, e) s) = basin s"
    using True by (cases x; simp add: onData_def split: loop.split)+
  ultimately show ?thesis
    by (intro streaming_tailReader [OF assms]) (simp_all add: handle_pair_frame)
next
  case False
  show ?thesis
  proof (cases x)
    case (Data data)
    then show ?thesis
      using assms False by (simp add: onData_def handleSetupInput_tailReader)
  next
    case (Resize cols rows)
    then show ?thesis
      using assms False by (simp add: onResize_def tailReader_emit Let_def)
  next
    case (StreamEvent event)
    then show ?thesis
      by (intro streaming_tailReader [OF assms]) (simp_all split: loop.split)
  next
    case (StreamError err)
    then show ?thesis
      by (intro streaming_tailReader [OF assms])
        (simp_all add: leaveLoop_def catchStreamingError_trace split: loop.split bool.split)
  next
    case StreamEnd
    then show ?thesis
      by (intro streaming_tailReader [OF assms])
        (simp_all add: leaveLoop_def split: loop.split bool.split)
  qed
qed

lemma fold_handle_tailReader: "tailReader s \<Longrightarrow> tailReader (fold handle events s)"
proof (induction events arbitrary: s)
  case Nil
  then show ?case by simp
next
  case (Cons ev events)
  then show ?case by (cases ev) (simp add: handle_pair_tailReader)
qed

lemma startSetupFlow_tailReader:
  assumes "filter isRead (trace s) = []" and "setupState s \<noteq> STREAMING"
    and "\<not> truthy_opt (since s)"
    and "\<not> truthy_opt (sinceOfParam js (sinceParam urlParams))"
  shows "tailReader (startSetupFlow js urlParams e s)"
proof (cases "truthy_string (basinParam urlParams) \<and> truthy_string (sessionParam urlParams)
    \<and> truthy_string (tokenParam urlParams)")
  case True
  then show ?thesis
    using assms
    by (simp add: startSetupFlow_def writelnAsync_def writeAsync_def Let_def)
      (intro testS2Connection_tailReader; simp)
next
  case False
  then show ?thesis
    using assms
    by (auto simp: startSetupFlow_def tailReader_def writelnAsync_def writeAsync_def Let_def)
qed

lemma run_tailReader:
  assumes "\<not> truthy_opt (sinceOfParam js (sinceParam urlParams))"
  shows "tailReader (run container js urlParams e events)"
proof -
  have "tailReader (initialize container js urlParams e constructor)"
  proof (cases container)
    case True
    then show ?thesis
      using assms
      by (simp add: initialize_def) (intro startSetupFlow_tailReader; simp add: constructor_def)
  next
    case False
    then show ?thesis
      by (simp add: initialize_def tailReader_def constructor_def)
  qed
  then show ?thesis
    by (simp add: run_def fold_handle_tailReader)
qed

lemma since_zero_run_fields:
  "token (run True example_js since_zero_params example_env
        [(StreamEvent (Batch [(output_record 0 1600000000000, 1700000005600),
                              (output_record 1 1600000005000, 1700000005601)]), example_env)])
     = Some ''MY_TOKEN''"
  "pty_stream (run True example_js since_zero_params example_env
        [(StreamEvent (Batch [(output_record 0 1600000000000, 1700000005600),
                              (output_record 1 1600000005000, 1700000005601)]), example_env)])
     = Some ''sessions/0001/term_output''"
  "basin (run True example_js since_zero_params example_env
        [(StreamEvent (Batch [(output_record 0 1600000000000, 1700000005600),
                              (output_record 1 1600000005000, 1700000005601)]), example_env)])
     = Some ''s2term-00001''"
  by (simp_all add: example_defs)

section \<open>The claims\<close>




text \<open>
  C2. The step from replay to live mode is one way. Once \<open>isLiveMode\<close> is true, no record,
  however old, no batch of records, no event handled later and not even a second call of
  \<open>initialize\<close> sets it back to false.
\<close>

theorem live_mode_is_one_way:
  assumes "isLiveMode s"
  shows "isLiveMode (processRecord r dateNow s)
       \<and> isLiveMode (fold (\<lambda>(r, dateNow). processRecord r dateNow) records s)
       \<and> isLiveMode (fold handle events s)
       \<and> isLiveMode (initialize container js urlParams e s)"
  using assms
  by (simp add: processRecord_live processRecords_live fold_handle_live initialize_live)

text \<open>
  The session that has caught up stays live when a record of September 2020 arrives, alone
  or in a batch, and while keys are typed.
\<close>

theorem live_mode_is_one_way_witness:
  "isLiveMode caught_up_example
     \<and> isLiveMode (processRecord (output_record 2 1600000000000) 1700000006000 caught_up_example)
     \<and> isLiveMode (fold (\<lambda>(r, dateNow). processRecord r dateNow)
                     [(output_record 2 1600000000000, 1700000006000),
                      (output_record 3 1600000001000, 1700000006001)] caught_up_example)
     \<and> isLiveMode (fold handle
                     [(StreamEvent (Batch [(output_record 2 1600000000000, 1700000006000)]),
                       example_env),
                      (Data ''ls'', example_env)] caught_up_example)
     \<and> isLiveMode (initialize True example_js replay_params example_env caught_up_example)"
proof -
  have live: "isLiveMode caught_up_example"
    by (simp add: caught_up_example_fields)
  show ?thesis
    using live live_mode_is_one_way
      [OF live, where r = "output_record 2 1600000000000" and dateNow = 1700000006000
         and records = "[(output_record 2 1600000000000, 1700000006000),
                         (output_record 3 1600000001000, 1700000006001)]"
         and events = "[(StreamEvent (Batch [(output_record 2 1600000000000, 1700000006000)]),
                         example_env),
                        (Data ''ls'', example_env)]"
         and container = True and js = example_js and urlParams = replay_params
         and e = example_env]
    by blast
qed



text \<open>
  C4, as the code has it. A resize appends one window record (\<open>windowRecord\<close>: empty body,
  headers \<open>type=window\<close>, \<open>rows\<close>, \<open>cols\<close>) when the terminal is streaming, and nothing
  before. One window record, with the size of the terminal, is sent when the connection
  test succeeds: \<open>testS2Connection\<close> appends it after setting the state to \<open>STREAMING\<close> and
  before \<open>startS2Streaming\<close> issues its read, whether that read is a replay from \<open>since\<close>
  or starts live at the tail; a failed test appends nothing. Processing records appends
  nothing: no window record is sent when a replay catches up and goes live.
\<close>

theorem window_records:
  assumes "s2 s = Some client"
  shows "(setupState s = STREAMING \<longrightarrow>
            filter isAppend (trace (onResize cols rows e s)) =
              filter isAppend (trace s) @
                [Append client (basin s) (keystrokes_stream s) (windowRecord cols rows (now e))])
       \<and> (setupState s \<noteq> STREAMING \<longrightarrow>
            filter isAppend (trace (onResize cols rows e s)) = filter isAppend (trace s))
       \<and> (checkTailResult e = Inr tail \<longrightarrow>
            filter (\<lambda>x. isAppend x \<or> isRead x) (trace (testS2Connection e t)) =
              filter (\<lambda>x. isAppend x \<or> isRead x) (trace t) @
                Append (S2 (token t)) (basin t) (keystrokes_stream t)
                  (windowRecord (termCols e) (termRows e) (now e)) #
                (if truthy_opt (since t) \<and> \<not> validTime (since t) then []
                 else
                   [Read (S2 (token t))
                      \<lparr> read_stream = pty_stream t, read_s2Basin = basin t,
                        read_timestamp = (if truthy_opt (since t) then since t else None),
                        read_tailOffset = (if truthy_opt (since t) then None else Some 0) \<rparr>]))
       \<and> (checkTailResult e = Inl err \<longrightarrow>
            filter isAppend (trace (testS2Connection e t)) = filter isAppend (trace t))
       \<and> filter isAppend (trace (processRecord r dateNow u)) = filter isAppend (trace u)
       \<and> filter isAppend (trace (applyS2Record event u)) = filter isAppend (trace u)"
  using assms testS2Connection_calls [of e tail t]
  by (simp add: onResize_def Let_def sendWindowResize_appends testS2Connection_appends)

text \<open>
  In the live example session a resize to 120 by 50 appends its window record; at the
  token prompt it appends nothing; Enter at the token prompt connects, and the window
  record of the terminal (100 by 40) goes out before the read from the tail.
\<close>

theorem window_records_witness:
  "filter isAppend (trace (onResize 120 50 example_env live_example)) =
     filter isAppend (trace live_example) @
       [Append (S2 (Some ''MY_TOKEN'')) (Some ''s2term-00001'') (Some ''sessions/0001/term_input'')
          (windowRecord 120 50 1700000005500)]
   \<and> filter isAppend (trace (onResize 120 50 example_env token_typed_example)) = []
   \<and> filter (\<lambda>x. isAppend x \<or> isRead x)
        (trace (testS2Connection example_env (token_typed_example\<lparr>token := Some ''MY_TOKEN''\<rparr>)))
     = filter (\<lambda>x. isAppend x \<or> isRead x) (trace token_typed_example) @
       [Append (S2 (Some ''MY_TOKEN'')) (Some ''s2term-00001'') (Some ''sessions/0001/term_input'')
          (windowRecord 100 40 1700000005500),
        Read (S2 (Some ''MY_TOKEN''))
          \<lparr> read_stream = Some ''sessions/0001/term_output'',
            read_s2Basin = Some ''s2term-00001'',
            read_timestamp = None, read_tailOffset = Some 0 \<rparr>]"
proof -
  have client: "s2 live_example = Some (S2 (Some ''MY_TOKEN''))"
    by (simp add: live_example_fields)
  have connects: "checkTailResult example_env = Inr (12, 1700000005000)"
    by (simp add: example_env_def)
  have env: "now example_env = 1700000005500" "termCols example_env = 100"
    "termRows example_env = 40"
    by (simp_all add: example_env_def)
  note inst = window_records
      [OF client, where cols = 120 and rows = 50 and e = example_env
         and tail = "(12, 1700000005000)"
         and t = "token_typed_example\<lparr>token := Some ''MY_TOKEN''\<rparr>"]
  have resized: "filter isAppend (trace (onResize 120 50 example_env live_example)) =
      filter isAppend (trace live_example) @
        [Append (S2 (Some ''MY_TOKEN'')) (Some ''s2term-00001'') (Some ''sessions/0001/term_input'')
           (windowRecord 120 50 1700000005500)]"
    using inst [THEN conjunct1] by (simp add: live_example_fields env)
  have early: "filter isAppend (trace (onResize 120 50 example_env token_typed_example)) = []"
    by (simp add: onResize_def token_typed_example_fields)
  have connected: "filter (\<lambda>x. isAppend x \<or> isRead x)
        (trace (testS2Connection example_env (token_typed_example\<lparr>token := Some ''MY_TOKEN''\<rparr>)))
     = filter (\<lambda>x. isAppend x \<or> isRead x) (trace token_typed_example) @
       [Append (S2 (Some ''MY_TOKEN'')) (Some ''s2term-00001'') (Some ''sessions/0001/term_input'')
          (windowRecord 100 40 1700000005500),
        Read (S2 (Some ''MY_TOKEN''))
          \<lparr> read_stream = Some ''sessions/0001/term_output'',
            read_s2Basin = Some ''s2term-00001'',
            read_timestamp = None, read_tailOffset = Some 0 \<rparr>]"
    using inst [THEN conjunct2, THEN conjunct2, THEN conjunct1] connects
    by (simp add: token_typed_example_state_fields env)
  show ?thesis
    using resized early connected by blast
qed

text \<open>
  C4 as stated fails twice. The replaying example session goes live when the record that
  has caught up arrives, and nothing is appended then: the input stream holds the one
  window record sent at connection time, before the replay began. And a resize at the
  token prompt, before the terminal streams, appends nothing.
\<close>

theorem window_records_counterexample:
  "\<not> isLiveMode replaying_example
   \<and> caught_up_example =
       handle (StreamEvent (Batch [(output_record 1 1700000005000, 1700000005700)]), example_env)
         replaying_example
   \<and> isLiveMode caught_up_example
   \<and> filter isAppend (trace caught_up_example) = filter isAppend (trace replaying_example)
   \<and> filter isAppend (trace replaying_example) =
       [Append (S2 (Some ''MY_TOKEN'')) (Some ''s2term-00001'') (Some ''sessions/0001/term_input'')
          \<lparr> append_body = [],
            append_headers = [(''type'', ''window''), (''rows'', ''40''), (''cols'', ''100'')],
            append_timestamp = 1700000005500 \<rparr>]
   \<and> setupState token_typed_example = COLLECTING_TOKEN
   \<and> filter isAppend (trace (onResize 120 50 example_env token_typed_example)) = []"
proof -
  have caught_up: "caught_up_example =
      handle (StreamEvent (Batch [(output_record 1 1700000005000, 1700000005700)]), example_env)
        replaying_example"
    by (rule caught_up_example_def)
  have rest: "\<not> isLiveMode replaying_example \<and> isLiveMode caught_up_example
      \<and> filter isAppend (trace caught_up_example) = filter isAppend (trace replaying_example)
      \<and> filter isAppend (trace replaying_example) =
          [Append (S2 (Some ''MY_TOKEN'')) (Some ''s2term-00001'')
             (Some ''sessions/0001/term_input'')
             \<lparr> append_body = [],
               append_headers = [(''type'', ''window''), (''rows'', ''40''), (''cols'', ''100'')],
               append_timestamp = 1700000005500 \<rparr>]
      \<and> setupState token_typed_example = COLLECTING_TOKEN
      \<and> filter isAppend (trace (onResize 120 50 example_env token_typed_example)) = []"
    by (simp add: caught_up_example_fields replaying_example_fields token_typed_example_fields
        onResize_def)
  show ?thesis
    using caught_up rest by blast
qed

text \<open>
  C5, as the code has it. When the stream being iterated throws, in live mode or in
  replay, the \<open>catch\<close> of \<open>startS2Streaming\<close> logs the error and writes a line to the
  terminal, and the loop is over; the mode is unchanged. Nothing reads the output stream
  again: whatever events follow, the reads in the trace are those made before the error.
\<close>

theorem read_failure_is_not_retried:
  assumes "loop (run container js urlParams e0 events) = Iterating w"
  shows "trace (handle (StreamError err, e) (run container js urlParams e0 events)) =
           trace (run container js urlParams e0 events) @
             [ConsoleError [Lit ''S2 streaming error:'', Err err],
              TermWriteln [Lit (ESC # ''[31mStreaming error: ''), Err err, Lit (ESC # ''[0m'')]]
       \<and> loop (handle (StreamError err, e) (run container js urlParams e0 events)) = NotIterating
       \<and> isLiveMode (handle (StreamError err, e) (run container js urlParams e0 events))
           = isLiveMode (run container js urlParams e0 events)
       \<and> filter isRead
            (trace (run container js urlParams e0 (events @ (StreamError err, e) # later)))
           = filter isRead (trace (run container js urlParams e0 events))"
proof -
  let ?s = "run container js urlParams e0 events"
  have streaming: "setupState ?s = STREAMING"
    using assms run_iterating [of container js urlParams e0 events w] by simp
  have caught: "handle (StreamError err, e) ?s = leaveLoop (catchStreamingError err ?s)"
    using assms by simp
  have streaming': "setupState (handle (StreamError err, e) ?s) = STREAMING"
    using streaming by (rule handle_streaming)
  have "run container js urlParams e0 (events @ (StreamError err, e) # later)
      = fold handle later (handle (StreamError err, e) ?s)"
    by (simp add: run_def)
  then have "filter isRead
      (trace (run container js urlParams e0 (events @ (StreamError err, e) # later)))
      = filter isRead (trace (handle (StreamError err, e) ?s))"
    using fold_handle_streaming_reads [OF streaming'] by simp
  also have "\<dots> = filter isRead (trace ?s)"
    using streaming by (rule handle_pair_streaming_reads)
  finally show ?thesis
    using assms
    by (simp add: caught catchStreamingError_trace leaveLoop_def split: loop.split bool.split)
qed

text \<open>
  The live example session: the stream throws, then a batch is delivered and a key is
  typed. One read was made, from the tail, and no other follows.
\<close>

theorem read_failure_is_not_retried_witness:
  "loop (run True example_js live_params example_env []) = Iterating False
   \<and> loop (handle (StreamError (Error ''network error''), example_env)
             (run True example_js live_params example_env [])) = NotIterating
   \<and> filter isRead
        (trace (run True example_js live_params example_env
                  ([] @ (StreamError (Error ''network error''), example_env) #
                     [(StreamEvent (Batch [(output_record 0 1700000005000, 1700000005600)]),
                       example_env),
                      (Data ''ls'', example_env)])))
       = filter isRead (trace (run True example_js live_params example_env []))"
proof -
  have iterating: "loop (run True example_js live_params example_env []) = Iterating False"
    using live_example_fields by (simp add: live_example_def)
  show ?thesis
    using iterating read_failure_is_not_retried
      [OF iterating, where err = "Error ''network error''" and e = example_env
         and later = "[(StreamEvent (Batch [(output_record 0 1700000005000, 1700000005600)]),
                        example_env),
                       (Data ''ls'', example_env)]"]
    by blast
qed

text \<open>
  C5 as stated fails in both modes. The live example session has read once, from the tail;
  the replaying one once, from its \<open>since\<close>. When the stream throws, each leaves its loop
  and no read follows: not from the tail, not from the last timestamp consumed.
\<close>

theorem read_failure_is_not_retried_counterexample:
  "isLiveMode live_example \<and> loop live_example = Iterating False
   \<and> filter isRead
        (trace (handle (StreamError (Error ''network error''), example_env) live_example))
       = [Read (S2 (Some ''MY_TOKEN''))
            \<lparr> read_stream = Some ''sessions/0001/term_output'',
              read_s2Basin = Some ''s2term-00001'',
              read_timestamp = None, read_tailOffset = Some 0 \<rparr>]
   \<and> loop (handle (StreamError (Error ''network error''), example_env) live_example)
       = NotIterating
   \<and> \<not> isLiveMode replaying_example \<and> loop replaying_example = Iterating False
   \<and> lastRecordTimestamp replaying_example = Some 1700000000000
   \<and> filter isRead
        (trace (handle (StreamError (Error ''network error''), example_env) replaying_example))
       = [Read (S2 (Some ''MY_TOKEN''))
            \<lparr> read_stream = Some ''sessions/0001/term_output'',
              read_s2Basin = Some ''s2term-00001'',
              read_timestamp = Some (Fin 1700000000000), read_tailOffset = None \<rparr>]
   \<and> loop (handle (StreamError (Error ''network error''), example_env) replaying_example)
       = NotIterating"
  by (simp add: live_example_fields replaying_example_fields leaveLoop_def)

text \<open>
  C6. In a streaming terminal, when the append of a keystroke or of a resize fails,
  \<open>onData\<close> and \<open>onResize\<close> return with one call of \<open>append\<close> made, not repeated, and the
  failure logged with \<open>console.error\<close>; nothing else of the state has changed and no
  exception leaves the handler. The input that follows is forwarded as before: its
  record is appended next.
\<close>

theorem input_append_failure_is_dropped:
  assumes "setupState s = STREAMING" and "s2 s = Some client"
    and "appendResult e = Some err"
  shows "onData data e s =
           s\<lparr>trace := trace s @
              [Append client (basin s) (keystrokes_stream s) (keystrokeRecord data (now e)),
               ConsoleError [Lit ''Failed to send keystroke to S2:'', Err err]]\<rparr>
       \<and> onResize cols rows e s =
           s\<lparr>trace := trace s @
              [ConsoleLog [Lit ''Terminal resized to '', Intg cols, Lit ''x'', Intg rows],
               Append client (basin s) (keystrokes_stream s) (windowRecord cols rows (now e)),
               ConsoleError [Lit ''Failed to send window resize to S2:'', Err err]]\<rparr>
       \<and> filter isAppend (trace (onData data' e' (onData data e s))) =
           filter isAppend (trace s) @
             [Append client (basin s) (keystrokes_stream s) (keystrokeRecord data (now e)),
              Append client (basin s) (keystrokes_stream s) (keystrokeRecord data' (now e'))]
       \<and> filter isAppend (trace (onData data' e' (onResize cols rows e s))) =
           filter isAppend (trace s) @
             [Append client (basin s) (keystrokes_stream s) (windowRecord cols rows (now e)),
              Append client (basin s) (keystrokes_stream s) (keystrokeRecord data' (now e'))]"
proof -
  have keystroke: "onData data e s =
      s\<lparr>trace := trace s @
         [Append client (basin s) (keystrokes_stream s) (keystrokeRecord data (now e)),
          ConsoleError [Lit ''Failed to send keystroke to S2:'', Err err]]\<rparr>"
    using assms by (simp add: onData_def sendKeystroke_def emit_def keystrokeRecord_def)
  have resize: "onResize cols rows e s =
      s\<lparr>trace := trace s @
         [ConsoleLog [Lit ''Terminal resized to '', Intg cols, Lit ''x'', Intg rows],
          Append client (basin s) (keystrokes_stream s) (windowRecord cols rows (now e)),
          ConsoleError [Lit ''Failed to send window resize to S2:'', Err err]]\<rparr>"
    using assms by (simp add: onResize_def sendWindowResize_def emit_def windowRecord_def)
  have after_keystroke: "filter isAppend (trace (onData data' e' (onData data e s))) =
      filter isAppend (trace s) @
        [Append client (basin s) (keystrokes_stream s) (keystrokeRecord data (now e)),
         Append client (basin s) (keystrokes_stream s) (keystrokeRecord data' (now e'))]"
    using assms by (simp add: onData_def sendKeystroke_appends)
  have after_resize: "filter isAppend (trace (onData data' e' (onResize cols rows e s))) =
      filter isAppend (trace s) @
        [Append client (basin s) (keystrokes_stream s) (windowRecord cols rows (now e)),
         Append client (basin s) (keystrokes_stream s) (keystrokeRecord data' (now e'))]"
    using assms by (simp add: onData_def onResize_def sendKeystroke_appends sendWindowResize_appends)
  show ?thesis
    using keystroke resize after_keystroke after_resize by blast
qed

text \<open>
  In the live example session the append of \<open>l\<close> fails; the \<open>s\<close> typed next is appended.
\<close>

theorem input_append_failure_is_dropped_witness:
  "onData ''l'' failing_env live_example =
     live_example\<lparr>trace := trace live_example @
        [Append (S2 (Some ''MY_TOKEN'')) (Some ''s2term-00001'') (Some ''sessions/0001/term_input'')
           (keystrokeRecord ''l'' 1700000005500),
         ConsoleError [Lit ''Failed to send keystroke to S2:'', Err (Error ''Failed to fetch'')]]\<rparr>
   \<and> filter isAppend (trace (onData ''s'' example_env (onData ''l'' failing_env live_example))) =
       filter isAppend (trace live_example) @
        [Append (S2 (Some ''MY_TOKEN'')) (Some ''s2term-00001'') (Some ''sessions/0001/term_input'')
           (keystrokeRecord ''l'' 1700000005500),
         Append (S2 (Some ''MY_TOKEN'')) (Some ''s2term-00001'') (Some ''sessions/0001/term_input'')
           (keystrokeRecord ''s'' 1700000005500)]"
proof -
  have streaming: "setupState live_example = STREAMING"
    and client: "s2 live_example = Some (S2 (Some ''MY_TOKEN''))"
    by (simp_all add: live_example_fields)
  have fails: "appendResult failing_env = Some (Error ''Failed to fetch'')"
    by (simp add: failing_env_def)
  have clock: "now failing_env = 1700000005500" "now example_env = 1700000005500"
    by (simp_all add: failing_env_def example_env_def)
  have fields: "basin live_example = Some ''s2term-00001''"
    "keystrokes_stream live_example = Some ''sessions/0001/term_input''"
    by (simp_all add: live_example_fields)
  show ?thesis
    using input_append_failure_is_dropped
      [OF streaming client fails, where data = "''l''" and data' = "''s''"
         and e' = example_env and cols = 100 and rows = 40, unfolded clock fields]
    by blast
qed

text \<open>
  C7. The two stream names are a function of the session id alone. Whether the id comes
  from the prompt of the interactive setup (\<open>processSetupInput\<close> in state
  \<open>COLLECTING_SESSION\<close>) or from the query string (\<open>startSetupFlow\<close>, which takes this path
  when \<open>basin\<close>, \<open>session\<close> and \<open>token\<close> are all given and not empty), whatever the rest
  of the state and of the environment, the input stream is
  \<open>sessions/{sessionId}/term_input\<close> and the output stream is
  \<open>sessions/{sessionId}/term_output\<close>; deriving them again from the same id gives the same
  two names.
\<close>

theorem session_addressing:
  assumes "setupState s = COLLECTING_SESSION" and "setupState s' = COLLECTING_SESSION"
  shows "keystrokes_stream (processSetupInput sessionId e s)
           = Some (''sessions/'' @ sessionId @ ''/term_input'')
       \<and> pty_stream (processSetupInput sessionId e s)
           = Some (''sessions/'' @ sessionId @ ''/term_output'')
       \<and> keystrokes_stream (processSetupInput sessionId e' s')
           = keystrokes_stream (processSetupInput sessionId e s)
       \<and> pty_stream (processSetupInput sessionId e' s')
           = pty_stream (processSetupInput sessionId e s)
       \<and> (truthy_string (basinParam urlParams) \<and> sessionParam urlParams = Some sessionId
            \<and> sessionId \<noteq> [] \<and> truthy_string (tokenParam urlParams) \<longrightarrow>
            keystrokes_stream (startSetupFlow js urlParams e t)
              = Some (''sessions/'' @ sessionId @ ''/term_input'')
            \<and> pty_stream (startSetupFlow js urlParams e t)
              = Some (''sessions/'' @ sessionId @ ''/term_output''))"
  using assms
  by (simp add: processSetupInput_def startSetupFlow_def writelnAsync_def writeAsync_def Let_def)

theorem session_addressing_witness:
  "keystrokes_stream
     (processSetupInput ''0001'' example_env (constructor\<lparr>setupState := COLLECTING_SESSION\<rparr>))
     = Some ''sessions/0001/term_input''
   \<and> pty_stream
     (processSetupInput ''0001'' example_env (constructor\<lparr>setupState := COLLECTING_SESSION\<rparr>))
     = Some ''sessions/0001/term_output''
   \<and> keystrokes_stream
     (processSetupInput ''0001'' failing_env
        (token_typed_example\<lparr>setupState := COLLECTING_SESSION\<rparr>))
     = Some ''sessions/0001/term_input''
   \<and> pty_stream
     (processSetupInput ''0001'' failing_env
        (token_typed_example\<lparr>setupState := COLLECTING_SESSION\<rparr>))
     = Some ''sessions/0001/term_output''
   \<and> keystrokes_stream (startSetupFlow example_js replay_params example_env constructor)
     = Some ''sessions/0001/term_input''
   \<and> pty_stream (startSetupFlow example_js replay_params example_env constructor)
     = Some ''sessions/0001/term_output''"
  using session_addressing
    [where s = "constructor\<lparr>setupState := COLLECTING_SESSION\<rparr>"
       and s' = "token_typed_example\<lparr>setupState := COLLECTING_SESSION\<rparr>"
       and urlParams = replay_params and sessionId = "''0001''"
       and e = example_env and e' = failing_env and js = example_js and t = constructor]
  by (simp add: replay_params_def)

text \<open>
  C8. In a streaming terminal a keystroke appends exactly one record: its body is the data
  of the keystroke, its only header is \<open>type=keystroke\<close> and its timestamp is the clock; a
  resize appends exactly one record: empty body, headers \<open>type=window\<close>, \<open>rows\<close> and \<open>cols\<close>
  printed in decimal, timestamp the clock. Both go to the input stream of the session.
  In every run of the page, every record appended has one of these two shapes.
\<close>

theorem input_records_have_wire_shape:
  assumes "setupState s = STREAMING" and "s2 s = Some client"
  shows "filter isAppend (trace (onData data e s)) =
           filter isAppend (trace s) @
             [Append client (basin s) (keystrokes_stream s)
                \<lparr> append_body = data, append_headers = [(''type'', ''keystroke'')],
                  append_timestamp = now e \<rparr>]
       \<and> filter isAppend (trace (onResize cols rows e s)) =
           filter isAppend (trace s) @
             [Append client (basin s) (keystrokes_stream s)
                \<lparr> append_body = [],
                  append_headers =
                    [(''type'', ''window''), (''rows'', toString rows), (''cols'', toString cols)],
                  append_timestamp = now e \<rparr>]
       \<and> isDecimal (toString rows) \<and> isDecimal (toString cols)
       \<and> (0 \<le> rows \<longrightarrow> decimalValue (toString rows) = nat rows)
       \<and> (0 \<le> cols \<longrightarrow> decimalValue (toString cols) = nat cols)
       \<and> list_all wireShape (trace (run container js urlParams e0 events))"
  using assms
  by (simp add: onData_def onResize_def sendKeystroke_appends sendWindowResize_appends
      keystrokeRecord_def windowRecord_def isDecimal_toString decimalValue_toString
      run_wireShape)

theorem input_records_have_wire_shape_witness:
  "filter isAppend (trace (onData ''ls'' example_env live_example)) =
     filter isAppend (trace live_example) @
       [Append (S2 (Some ''MY_TOKEN'')) (Some ''s2term-00001'') (Some ''sessions/0001/term_input'')
          \<lparr> append_body = ''ls'', append_headers = [(''type'', ''keystroke'')],
            append_timestamp = 1700000005500 \<rparr>]
   \<and> filter isAppend (trace (onResize 120 50 example_env live_example)) =
     filter isAppend (trace live_example) @
       [Append (S2 (Some ''MY_TOKEN'')) (Some ''s2term-00001'') (Some ''sessions/0001/term_input'')
          \<lparr> append_body = [],
            append_headers = [(''type'', ''window''), (''rows'', ''50''), (''cols'', ''120'')],
            append_timestamp = 1700000005500 \<rparr>]
   \<and> decimalValue ''50'' = 50 \<and> decimalValue ''120'' = 120
   \<and> list_all wireShape
        (trace (run True example_js live_params example_env
                  [(Data ''ls'', example_env), (Resize 120 50, example_env)]))"
proof -
  have streaming: "setupState live_example = STREAMING"
    and client: "s2 live_example = Some (S2 (Some ''MY_TOKEN''))"
    by (simp_all add: live_example_fields)
  have clock: "now example_env = 1700000005500"
    by (simp add: example_env_def)
  have fields: "basin live_example = Some ''s2term-00001''"
    "keystrokes_stream live_example = Some ''sessions/0001/term_input''"
    by (simp_all add: live_example_fields)
  have printed: "toString 50 = ''50''" "toString 120 = ''120''"
    by (simp_all add: toString_def digits.simps)
  have "(0::int) \<le> 50" and "(0::int) \<le> 120"
    by simp_all
  then show ?thesis
    using input_records_have_wire_shape
      [OF streaming client, where e = example_env and data = "''ls''" and cols = 120
         and rows = 50 and container = True and js = example_js and urlParams = live_params
         and e0 = example_env
         and events = "[(Data ''ls'', example_env), (Resize 120 50, example_env)]",
         unfolded clock fields printed]
    by simp
qed

text \<open>
  C9. When the \<open>since\<close> parameter is absent or empty, or \<open>parseInt\<close> makes it 0 or \<open>NaN\<close>, the
  session has no start point. In every run of the page: \<open>since\<close> stays falsy; every read
  of the output stream starts at the tail (\<open>tailOffset: 0\<close>, no \<open>timestamp\<close>); the session is
  live as soon as a read has been issued, \<open>startS2Streaming\<close> setting \<open>isLiveMode\<close> before
  it reads; \<open>sleep\<close> is never called; and the catch-up from replay to live never happens.

  The read is issued. \<open>startS2Streaming\<close>, called with a client and no \<open>since\<close>, adds
  exactly one read to those made so far: by that client, on the output stream of the
  session, with \<open>tailOffset: 0\<close> and no \<open>timestamp\<close>. A run that has reached \<open>STREAMING\<close> is
  live and has issued exactly this one read, no other; a run that has not has issued none.
  And a page opened with \<open>basin\<close>, \<open>session\<close> and \<open>token\<close> in its query string, when
  \<open>checkTail\<close> succeeds, is in \<open>STREAMING\<close> from the start, whatever events follow.
\<close>

theorem no_since_is_live_from_tail:
  assumes "sinceParam urlParams = None \<or> sinceParam urlParams = Some []
           \<or> parseInt js (interpolate (sinceParam urlParams)) = Fin 0
           \<or> parseInt js (interpolate (sinceParam urlParams)) = NaN"
  shows "\<not> truthy_opt (since (run container js urlParams e events))
       \<and> list_all fromTail (trace (run container js urlParams e events))
       \<and> (filter isRead (trace (run container js urlParams e events)) \<noteq> [] \<longrightarrow>
            isLiveMode (run container js urlParams e events))
       \<and> (\<not> truthy_opt (since s) \<longrightarrow> isLiveMode (startS2Streaming e' s))
       \<and> (\<not> truthy_opt (since s) \<and> s2 s = Some client \<longrightarrow>
            filter isRead (trace (startS2Streaming e' s)) =
              filter isRead (trace s) @
                [Read client
                   \<lparr> read_stream = pty_stream s, read_s2Basin = basin s,
                     read_timestamp = None, read_tailOffset = Some 0 \<rparr>])
       \<and> (setupState (run container js urlParams e events) = STREAMING \<longrightarrow>
            isLiveMode (run container js urlParams e events)
            \<and> filter isRead (trace (run container js urlParams e events)) =
                [Read (S2 (token (run container js urlParams e events)))
                   \<lparr> read_stream = pty_stream (run container js urlParams e events),
                     read_s2Basin = basin (run container js urlParams e events),
                     read_timestamp = None, read_tailOffset = Some 0 \<rparr>])
       \<and> (setupState (run container js urlParams e events) \<noteq> STREAMING \<longrightarrow>
            filter isRead (trace (run container js urlParams e events)) = [])
       \<and> (container \<and> truthy_string (basinParam urlParams)
            \<and> truthy_string (sessionParam urlParams) \<and> truthy_string (tokenParam urlParams)
            \<and> checkTailResult e = Inr tail \<longrightarrow>
            setupState (run container js urlParams e events) = STREAMING)
       \<and> filter isSleep (trace (run container js urlParams e events)) = []
       \<and> liveModeActivated \<notin> set (trace (run container js urlParams e events))"
proof -
  let ?r = "run container js urlParams e events"
  have falsy: "\<not> truthy_opt (sinceOfParam js (sinceParam urlParams))"
    using assms by (rule falsy_since)
  have tailing: "tailing ?r"
    using falsy by (rule run_tailing)
  have reader: "tailReader ?r"
    using falsy by (rule run_tailReader)
  have paced: "list_all fromTail (trace ?r) \<and> filter isSleep (trace ?r) = []
      \<and> liveModeActivated \<notin> set (trace ?r)"
    using tailing unpaced_trace [of "trace ?r"] by (simp add: tailing_def)
  have mode: "\<not> truthy_opt (since s) \<longrightarrow> isLiveMode (startS2Streaming e' s)"
    using startS2Streaming_mode [of e' s] by blast
  have read: "\<not> truthy_opt (since s) \<and> s2 s = Some client \<longrightarrow>
      filter isRead (trace (startS2Streaming e' s)) =
        filter isRead (trace s) @
          [Read client
             \<lparr> read_stream = pty_stream s, read_s2Basin = basin s,
               read_timestamp = None, read_tailOffset = Some 0 \<rparr>]"
    by (simp add: startS2Streaming_reads)
  have once: "setupState ?r = STREAMING \<longrightarrow>
      isLiveMode ?r
      \<and> filter isRead (trace ?r) =
          [Read (S2 (token ?r))
             \<lparr> read_stream = pty_stream ?r, read_s2Basin = basin ?r,
               read_timestamp = None, read_tailOffset = Some 0 \<rparr>]"
    using tailing reader by (simp add: tailing_def tailReader_def tailRead_def)
  have none: "setupState ?r \<noteq> STREAMING \<longrightarrow> filter isRead (trace ?r) = []"
    using reader by (simp add: tailReader_def)
  have streams: "container \<and> truthy_string (basinParam urlParams)
      \<and> truthy_string (sessionParam urlParams) \<and> truthy_string (tokenParam urlParams)
      \<and> checkTailResult e = Inr tail \<longrightarrow> setupState ?r = STREAMING"
    using falsy
    by (simp add: run_def fold_handle_streaming initialize_setupState startSetupFlow_setupState)
  show ?thesis
    using tailing paced mode read once none streams by (simp add: tailing_def)
qed

text \<open>
  The page opened with \<open>since=0\<close>; two records of September 2020 arrive in one batch. And
  \<open>startS2Streaming\<close> called in a terminal that has its client and its streams, and no
  \<open>since\<close>.
\<close>

theorem no_since_is_live_from_tail_witness:
  "parseInt example_js (interpolate (sinceParam since_zero_params)) = Fin 0
   \<and> \<not> truthy_opt (since (run True example_js since_zero_params example_env
        [(StreamEvent (Batch [(output_record 0 1600000000000, 1700000005600),
                              (output_record 1 1600000005000, 1700000005601)]), example_env)]))
   \<and> list_all fromTail (trace (run True example_js since_zero_params example_env
        [(StreamEvent (Batch [(output_record 0 1600000000000, 1700000005600),
                              (output_record 1 1600000005000, 1700000005601)]), example_env)]))
   \<and> filter isSleep (trace (run True example_js since_zero_params example_env
        [(StreamEvent (Batch [(output_record 0 1600000000000, 1700000005600),
                              (output_record 1 1600000005000, 1700000005601)]), example_env)]))
       = []
   \<and> liveModeActivated \<notin> set (trace (run True example_js since_zero_params example_env
        [(StreamEvent (Batch [(output_record 0 1600000000000, 1700000005600),
                              (output_record 1 1600000005000, 1700000005601)]), example_env)]))
   \<and> setupState (run True example_js since_zero_params example_env
        [(StreamEvent (Batch [(output_record 0 1600000000000, 1700000005600),
                              (output_record 1 1600000005000, 1700000005601)]), example_env)]) = STREAMING
   \<and> isLiveMode (run True example_js since_zero_params example_env
        [(StreamEvent (Batch [(output_record 0 1600000000000, 1700000005600),
                              (output_record 1 1600000005000, 1700000005601)]), example_env)])
   \<and> filter isRead (trace (run True example_js since_zero_params example_env
        [(StreamEvent (Batch [(output_record 0 1600000000000, 1700000005600),
                              (output_record 1 1600000005000, 1700000005601)]), example_env)]))
       = [Read (S2 (Some ''MY_TOKEN''))
            \<lparr> read_stream = Some ''sessions/0001/term_output'',
              read_s2Basin = Some ''s2term-00001'',
              read_timestamp = None, read_tailOffset = Some 0 \<rparr>]
   \<and> isLiveMode
       (startS2Streaming example_env
          (constructor\<lparr>basin := Some ''s2term-00001'',
                           s2 := Some (S2 (Some ''MY_TOKEN'')),
                           pty_stream := Some ''sessions/0001/term_output''\<rparr>))
   \<and> filter isRead (trace
       (startS2Streaming example_env
          (constructor\<lparr>basin := Some ''s2term-00001'',
                           s2 := Some (S2 (Some ''MY_TOKEN'')),
                           pty_stream := Some ''sessions/0001/term_output''\<rparr>)))
       = [Read (S2 (Some ''MY_TOKEN''))
            \<lparr> read_stream = Some ''sessions/0001/term_output'',
              read_s2Basin = Some ''s2term-00001'',
              read_timestamp = None, read_tailOffset = Some 0 \<rparr>]"
proof -
  let ?s = "(constructor\<lparr>basin := Some ''s2term-00001'',
                           s2 := Some (S2 (Some ''MY_TOKEN'')),
                           pty_stream := Some ''sessions/0001/term_output''\<rparr>)"
  let ?r = "run True example_js since_zero_params example_env
        [(StreamEvent (Batch [(output_record 0 1600000000000, 1700000005600),
                              (output_record 1 1600000005000, 1700000005601)]), example_env)]"
  have zero: "parseInt example_js (interpolate (sinceParam since_zero_params)) = Fin 0"
    by (simp add: example_js_def since_zero_params_def replay_params_def)
  then have falsy: "sinceParam since_zero_params = None \<or> sinceParam since_zero_params = Some []
      \<or> parseInt example_js (interpolate (sinceParam since_zero_params)) = Fin 0
      \<or> parseInt example_js (interpolate (sinceParam since_zero_params)) = NaN"
    by blast
  have opened: "True \<and> truthy_string (basinParam since_zero_params)
      \<and> truthy_string (sessionParam since_zero_params)
      \<and> truthy_string (tokenParam since_zero_params)
      \<and> checkTailResult example_env = Inr (12, 1700000005000)"
    by (simp add: since_zero_params_def replay_params_def example_env_def)
  have fields: "token ?r = Some ''MY_TOKEN''"
    "pty_stream ?r = Some ''sessions/0001/term_output''"
    "basin ?r = Some ''s2term-00001''"
    by (simp_all add: since_zero_run_fields)
  note inst = no_since_is_live_from_tail
      [where urlParams = since_zero_params and js = example_js and container = True
         and e = example_env and tail = "(12, 1700000005000)"
         and s = ?s and e' = example_env and client = "S2 (Some ''MY_TOKEN'')"
         and events = "[(StreamEvent (Batch [(output_record 0 1600000000000, 1700000005600),
                          (output_record 1 1600000005000, 1700000005601)]), example_env)]",
       OF falsy]
  have streaming: "setupState ?r = STREAMING"
    using inst opened by blast
  have "isLiveMode ?r \<and> filter isRead (trace ?r) =
      [Read (S2 (token ?r))
         \<lparr> read_stream = pty_stream ?r, read_s2Basin = basin ?r,
           read_timestamp = None, read_tailOffset = Some 0 \<rparr>]"
    using inst streaming by blast
  then have reads: "isLiveMode ?r \<and> filter isRead (trace ?r) =
      [Read (S2 (Some ''MY_TOKEN''))
         \<lparr> read_stream = Some ''sessions/0001/term_output'',
           read_s2Basin = Some ''s2term-00001'',
           read_timestamp = None, read_tailOffset = Some 0 \<rparr>]"
    by (simp add: fields)
  have fresh: "\<not> truthy_opt (since ?s) \<and> s2 ?s = Some (S2 (Some ''MY_TOKEN''))"
    by (simp add: constructor_def)
  have "isLiveMode (startS2Streaming example_env ?s)
      \<and> filter isRead (trace (startS2Streaming example_env ?s)) =
          filter isRead (trace ?s) @
            [Read (S2 (Some ''MY_TOKEN''))
               \<lparr> read_stream = pty_stream ?s, read_s2Basin = basin ?s,
                 read_timestamp = None, read_tailOffset = Some 0 \<rparr>]"
    using inst fresh by blast
  then have first: "isLiveMode (startS2Streaming example_env ?s)
      \<and> filter isRead (trace (startS2Streaming example_env ?s)) =
          [Read (S2 (Some ''MY_TOKEN''))
             \<lparr> read_stream = Some ''sessions/0001/term_output'',
               read_s2Basin = Some ''s2term-00001'',
               read_timestamp = None, read_tailOffset = Some 0 \<rparr>]"
    by (simp add: constructor_def)
  show ?thesis
    using zero inst streaming reads first by blast
qed

text \<open>
  C10, as the code has it. While the terminal is not streaming, a resize is only logged
  and user input goes to \<open>handleSetupInput\<close>; no keystroke is ever forwarded. The one
  append the setup can make is the window record that \<open>testS2Connection\<close> sends after it
  has set the state to \<open>STREAMING\<close>: it follows Enter at the token prompt when \<open>checkTail\<close>
  succeeds. So an event that leaves the terminal not streaming has appended nothing, and in
  every run of the page nothing has been appended as long as the state is not \<open>STREAMING\<close>.
\<close>

theorem no_append_before_streaming:
  assumes "setupState s \<noteq> STREAMING"
  shows "onData data e s = handleSetupInput data e s
       \<and> onResize cols rows e s =
           emit (ConsoleLog [Lit ''Terminal resized to '', Intg cols, Lit ''x'', Intg rows]) s
       \<and> filter isAppend (trace (onData data e s)) =
           filter isAppend (trace s) @
             (if data = [CHR 0x0D] \<and> setupState s = COLLECTING_TOKEN then
                case checkTailResult e of
                  Inl err \<Rightarrow> []
                | Inr tail \<Rightarrow>
                    [Append (S2 (Some (trim (currentInput s)))) (basin s) (keystrokes_stream s)
                       (windowRecord (termCols e) (termRows e) (now e))]
              else [])
       \<and> (setupState (onData data e s) \<noteq> STREAMING \<longrightarrow>
            filter isAppend (trace (onData data e s)) = filter isAppend (trace s))
       \<and> (setupState (run container js urlParams e0 events) \<noteq> STREAMING \<longrightarrow>
            filter isAppend (trace (run container js urlParams e0 events)) = [])"
proof -
  have routed: "onData data e s = handleSetupInput data e s"
    using assms by (simp add: onData_def)
  have ignored: "onResize cols rows e s =
      emit (ConsoleLog [Lit ''Terminal resized to '', Intg cols, Lit ''x'', Intg rows]) s"
    using assms by (simp add: onResize_def Let_def)
  have appends: "filter isAppend (trace (onData data e s)) =
      filter isAppend (trace s) @
        (if data = [CHR 0x0D] \<and> setupState s = COLLECTING_TOKEN then
           case checkTailResult e of
             Inl err \<Rightarrow> []
           | Inr tail \<Rightarrow>
               [Append (S2 (Some (trim (currentInput s)))) (basin s) (keystrokes_stream s)
                  (windowRecord (termCols e) (termRows e) (now e))]
         else [])"
    using assms by (simp add: routed handleSetupInput_appends)
  have quiet: "setupState (onData data e s) \<noteq> STREAMING \<longrightarrow>
      filter isAppend (trace (onData data e s)) = filter isAppend (trace s)"
    using handle_pair_quiet_setup [of "Data data" e s] by simp
  show ?thesis
    using routed ignored appends quiet
      run_quiet_setup [of container js urlParams e0 events]
    by blast
qed

theorem no_append_before_streaming_witness:
  "setupState token_typed_example \<noteq> STREAMING
   \<and> onData ''x'' example_env token_typed_example
       = handleSetupInput ''x'' example_env token_typed_example
   \<and> filter isAppend (trace (onData ''x'' example_env token_typed_example)) = []
   \<and> filter isAppend (trace (onResize 120 50 example_env token_typed_example)) = []
   \<and> filter isAppend (trace token_typed_example) = []"
proof -
  have waiting: "setupState token_typed_example \<noteq> STREAMING"
    by (simp add: token_typed_example_fields)
  have none: "filter isAppend (trace token_typed_example) = []"
    by (simp add: token_typed_example_fields)
  note inst = no_append_before_streaming
      [OF waiting, where data = "''x''" and e = example_env and cols = 120 and rows = 50
         and container = True and js = example_js and urlParams = no_params
         and ?e0.0 = example_env and events = "[]"]
  have routed: "onData ''x'' example_env token_typed_example
      = handleSetupInput ''x'' example_env token_typed_example"
    using inst by blast
  have typed: "filter isAppend (trace (onData ''x'' example_env token_typed_example)) = []"
    using inst [THEN conjunct2, THEN conjunct2, THEN conjunct1] none by simp
  have resized: "filter isAppend (trace (onResize 120 50 example_env token_typed_example)) = []"
    using inst [THEN conjunct2, THEN conjunct1] none by simp
  show ?thesis
    using waiting routed typed resized none by blast
qed

text \<open>
  C10 as stated fails at the last key of the setup. The token is typed and the state is
  \<open>COLLECTING_TOKEN\<close>; Enter arrives, \<open>checkTail\<close> succeeds, and handling this input appends
  a window record to the input stream.
\<close>

theorem no_append_before_streaming_counterexample:
  "setupState token_typed_example \<noteq> STREAMING
   \<and> filter isAppend (trace token_typed_example) = []
   \<and> filter isAppend (trace (onData [CHR 0x0D] example_env token_typed_example)) =
       [Append (S2 (Some ''MY_TOKEN'')) (Some ''s2term-00001'') (Some ''sessions/0001/term_input'')
          \<lparr> append_body = [],
            append_headers = [(''type'', ''window''), (''rows'', ''40''), (''cols'', ''100'')],
            append_timestamp = 1700000005500 \<rparr>]"
  by (simp add: token_typed_example_fields onData_def handleSetupInput_appends windowRecord_def
      example_env_def trim_def isWhiteSpace_def toString_def digits.simps)

end
